theory Spec2Isabelle
  imports Main
begin

section \<open>refman: a PDF reference index on top of bleve\<close>

text \<open>
  The repository holds two revisions of one command-line program. The file
  \<^verbatim>\<open>src/unnamed/part_000\<close> (a \<^verbatim>\<open>go.mod\<close> followed by a \<^verbatim>\<open>main.go\<close>) reads PDFs with
  pdfcpu and has the flags \<^verbatim>\<open>-v\<close> and \<^verbatim>\<open>-vv\<close>; \<^verbatim>\<open>src/main.go\<close> reads PDFs with
  ledongthuc/pdf, has no verbosity flag and logs through a buffered writer. The
  functions of part_000 keep their names (\<open>init\<close>, \<open>main\<close>, \<open>addEntry\<close>, \<open>parseDocument\<close>,
  \<open>openIndex\<close>); those of \<^verbatim>\<open>src/main.go\<close> that differ carry the suffix \<open>_main_go\<close>.
  \<open>openIndex\<close> is the same text in both files and is modelled once.

  The libraries the program calls (bleve, pdfcpu, ledongthuc/pdf, bibtex, the Go
  standard library) are not part of the repository. What they return is given by
  an environment record \<open>env\<close>; what bleve does to the index on disk is modelled on
  the disk states below, after bleve's documented behaviour.
\<close>

subsection \<open>Errors, documents, the index on disk\<close>

datatype error =
    ErrorIndexPathExists          \<comment> \<open>bleve: cannot create new index, path already exists\<close>
  | ErrorIndexPathDoesNotExist    \<comment> \<open>bleve: cannot open index, path does not exist\<close>
  | ErrorIndexMetaMissing         \<comment> \<open>bleve: cannot open index, metadata missing\<close>
  | ErrorIndexMetaCorrupt         \<comment> \<open>bleve: cannot open index, metadata corrupt\<close>
  | ErrorIndexClosed              \<comment> \<open>bleve: index is closed\<close>
  | ErrorEmptyID                  \<comment> \<open>bleve: document ID cannot be empty\<close>
  | ErrExist                      \<comment> \<open>\<^verbatim>\<open>os.ErrExist\<close>\<close>
  | OtherError string             \<comment> \<open>any other error, with its message\<close>

datatype BibTex = BibTex "(string \<times> string) list"

text \<open>\<^verbatim>\<open>type Document struct { Ref *bibtex.BibTex; Txt string }\<close>; a nil \<open>Ref\<close> is \<open>None\<close>.\<close>

record Document =
  Ref :: "BibTex option"
  Txt :: string

text \<open>
  What lies at an index path:
  \<^item> nothing;
  \<^item> a regular file;
  \<^item> a directory without the metadata file \<^verbatim>\<open>index_meta.json\<close>, with the documents of
    the store that lies in it (none in an empty directory);
  \<^item> an index directory with its metadata file that \<^verbatim>\<open>bleve.Open\<close> cannot open, with
    the error \<open>Open\<close> fails with (corrupt metadata, unknown storage, an I/O failure);
  \<^item> an index holding documents by identifier.
\<close>

datatype disk_entry =
    NoPath
  | RegularFile
  | MetaMissing "(string \<times> Document) list"
  | Unreadable error
  | IndexDir "(string \<times> Document) list"

record SearchRequest =
  Query :: string
  Size :: int
  From :: int
  Highlight :: "string option"

record DocumentMatch =
  ID :: string
  Fragments :: "string list"

type_synonym SearchResult = "DocumentMatch list"

text \<open>An \<^verbatim>\<open>io.Reader\<close>: the bytes it delivers, then EOF (\<open>None\<close>) or a read error.\<close>

datatype Reader = Reader string "error option"

text \<open>
  A pdfcpu context. \<open>EnsurePageCount\<close> is the outcome of \<^verbatim>\<open>ctx.EnsurePageCount()\<close>:
  an error, or the value \<^verbatim>\<open>ctx.PageCount\<close> holds afterwards. \<open>ExtractPageContent\<close> may
  return a nil reader with a nil error (\<open>Inr None\<close>).
\<close>

record Context =
  EnsurePageCount :: "error + int"
  ExtractPageContent :: "int \<Rightarrow> error + Reader option"

text \<open>The reader of ledongthuc/pdf, used by \<^verbatim>\<open>src/main.go\<close>.\<close>

record PdfReader =
  GetPlainText :: "error + Reader"

text \<open>Trace of the calls made to bleve.\<close>

datatype call =
    Call_Open string
  | Call_New string
  | Call_Index string string Document
  | Call_Search string SearchRequest
  | Call_Close string

text \<open>What the logger writes to.\<close>

datatype writer = Stderr | Discard | Buffered

text \<open>
  A line on standard error: a log message, the runtime's report of a panic, or
  the message and usage text that \<^verbatim>\<open>flag.Parse\<close> prints before it ends the process.
\<close>

datatype err_line = LogMsg string | PanicMsg error | UsageMsg

text \<open>How a run ends before its time: \<^verbatim>\<open>panic(err)\<close>, or \<^verbatim>\<open>os.Exit(code)\<close>.\<close>

datatype ending = Panic error | Exit int

subsection \<open>Environment and state\<close>

record env =
  REFMAN_WORKDIR :: string
  APPDATA :: string
  GOOS :: string
  UserHomeDir :: "error + string"
  MkdirAll :: "string \<Rightarrow> error option"
  filepath_Join :: "string \<Rightarrow> string \<Rightarrow> string"
  filepath_Abs :: "string \<Rightarrow> error + string"
  ReadContextFile :: "string \<Rightarrow> error + Context"
  pdf_Open :: "string \<Rightarrow> error + PdfReader"
  os_Open :: "string \<Rightarrow> error + string"
  bibtex_Parse :: "string \<Rightarrow> error + BibTex"
  search_hits :: "(string \<times> Document) list \<Rightarrow> string \<Rightarrow> error + SearchResult"
  SearchResult_String :: "SearchResult \<Rightarrow> string"

text \<open>
  The command line as \<^verbatim>\<open>flag.Parse\<close> reads it: the values it gives to the flags and
  the positional arguments, and in \<open>flag_exit\<close> the status with which it ends the
  process when it does (an undefined flag, a missing value, \<^verbatim>\<open>-h\<close>); the flag set is
  the default one, with \<^verbatim>\<open>flag.ExitOnError\<close>.
\<close>

record flags =
  flag_v :: bool
  flag_vv :: bool
  flag_pdf :: string
  flag_bibtex :: string
  flag_Args :: "string list"
  flag_exit :: "int option"

text \<open>
  The package-level variables of the program, the two output streams, the
  buffer of \<^verbatim>\<open>src/main.go\<close>'s \<^verbatim>\<open>bufio.Writer\<close> on standard error, the index
  locations on disk and the trace of bleve calls.
\<close>

record state =
  workDir :: string
  indexPath :: string
  verbose :: bool
  verbose2 :: bool
  pdfFile :: string
  bibtexFile :: string
  args :: "string list"
  logger :: writer
  stdout :: "string list"
  stderr :: "err_line list"
  bufw :: "err_line list"
  disk :: "string \<Rightarrow> disk_entry"
  calls :: "call list"

subsection \<open>Standard library\<close>

text \<open>
  \<^verbatim>\<open>logger.Printf\<close> and \<^verbatim>\<open>logger.Println\<close>: one message to the logger's writer. The
  prefix and the timestamp that \<^verbatim>\<open>log.LstdFlags\<close> adds are left out.
\<close>

definition logger_Print :: "string \<Rightarrow> state \<Rightarrow> state" where
  "logger_Print msg st =
     (case logger st of
        Stderr \<Rightarrow> st\<lparr>stderr := stderr st @ [LogMsg msg]\<rparr>
      | Buffered \<Rightarrow> st\<lparr>bufw := bufw st @ [LogMsg msg]\<rparr>
      | Discard \<Rightarrow> st)"

text \<open>\<^verbatim>\<open>stderr.Flush()\<close> of the buffered writer.\<close>

definition Flush :: "state \<Rightarrow> state" where
  "Flush st = st\<lparr>stderr := stderr st @ bufw st, bufw := []\<rparr>"

definition fmt_Println :: "string \<Rightarrow> state \<Rightarrow> state" where
  "fmt_Println s st = st\<lparr>stdout := stdout st @ [s]\<rparr>"

text \<open>\<^verbatim>\<open>strings.Join(elems, sep)\<close>.\<close>

fun Join :: "string list \<Rightarrow> string \<Rightarrow> string" where
  "Join [] sep = []"
| "Join [x] sep = x"
| "Join (x # y # ys) sep = x @ sep @ Join (y # ys) sep"

text \<open>
  \<^verbatim>\<open>strings.ReplaceAll(s, old, new)\<close> for a non-empty \<open>old\<close>: the non-overlapping
  occurrences, leftmost first. Go treats an empty \<open>old\<close> rune by rune; the program
  never passes one, and the model leaves \<open>s\<close> as it is there.
\<close>

function ReplaceAll :: "string \<Rightarrow> string \<Rightarrow> string \<Rightarrow> string" where
  "ReplaceAll s old new =
     (if old = [] \<or> s = [] then s
      else if take (length old) s = old
        then new @ ReplaceAll (drop (length old) s) old new
      else hd s # ReplaceAll (tl s) old new)"
  by pat_completeness auto
termination
  by (relation "measure (\<lambda>(s, old, new). length s)") auto

text \<open>
  \<^verbatim>\<open>io.Copy(&txt, r)\<close> into a \<^verbatim>\<open>strings.Builder\<close>: the bytes read are appended, and
  the reader's error, if any, is returned.
\<close>

fun io_Copy :: "string \<Rightarrow> Reader \<Rightarrow> string \<times> error option" where
  "io_Copy txt (Reader bytes err) = (txt @ bytes, err)"

subsection \<open>bleve\<close>

text \<open>
  \<^verbatim>\<open>bleve.Open(path)\<close> opens an existing index. It fails where the path does not
  exist, where the metadata file cannot be read (a regular file, a directory
  without it), and where the index cannot be opened. The handle of an open index
  is its path.
\<close>

definition bleve_Open :: "string \<Rightarrow> state \<Rightarrow> state \<times> (error + string)" where
  "bleve_Open path st =
     (let st' = st\<lparr>calls := calls st @ [Call_Open path]\<rparr> in
      case disk st path of
        NoPath \<Rightarrow> (st', Inl ErrorIndexPathDoesNotExist)
      | RegularFile \<Rightarrow> (st', Inl ErrorIndexMetaMissing)
      | MetaMissing docs \<Rightarrow> (st', Inl ErrorIndexMetaMissing)
      | Unreadable err \<Rightarrow> (st', Inl err)
      | IndexDir docs \<Rightarrow> (st', Inr path))"

text \<open>
  \<^verbatim>\<open>bleve.New(path, mapping)\<close> makes the directory (\<^verbatim>\<open>os.MkdirAll\<close>) and creates the
  metadata file, which must not exist yet. At a path with nothing the result is
  an empty index. A regular file in the way gives the error of the operating
  system. In a directory without metadata file the creation succeeds over the
  store that lies there, and the index holds that store's documents. Where the
  metadata file exists it fails with \<open>ErrorIndexPathExists\<close>.
\<close>

definition bleve_New :: "string \<Rightarrow> state \<Rightarrow> state \<times> (error + string)" where
  "bleve_New path st =
     (let st' = st\<lparr>calls := calls st @ [Call_New path]\<rparr> in
      case disk st path of
        NoPath \<Rightarrow> (st'\<lparr>disk := (disk st)(path := IndexDir [])\<rparr>, Inr path)
      | RegularFile \<Rightarrow> (st', Inl (OtherError ''mkdir: not a directory''))
      | MetaMissing docs \<Rightarrow> (st'\<lparr>disk := (disk st)(path := IndexDir docs)\<rparr>, Inr path)
      | Unreadable err \<Rightarrow> (st', Inl ErrorIndexPathExists)
      | IndexDir docs \<Rightarrow> (st', Inl ErrorIndexPathExists))"

text \<open>
  \<^verbatim>\<open>index.Index(id, data)\<close> stores \<open>data\<close> under \<open>id\<close>; a document already stored
  under \<open>id\<close> is deleted first. The empty identifier is refused.
\<close>

definition index_Index :: "string \<Rightarrow> string \<Rightarrow> Document \<Rightarrow> state \<Rightarrow> state \<times> error option" where
  "index_Index index id' data st =
     (let st' = st\<lparr>calls := calls st @ [Call_Index index id' data]\<rparr> in
      if id' = [] then (st', Some ErrorEmptyID)
      else case disk st index of
        IndexDir docs \<Rightarrow>
          (st'\<lparr>disk := (disk st)(index := IndexDir ((id', data) # filter (\<lambda>kv. fst kv \<noteq> id') docs))\<rparr>,
           None)
      | NoPath \<Rightarrow> (st', Some ErrorIndexClosed)
      | RegularFile \<Rightarrow> (st', Some ErrorIndexClosed)
      | MetaMissing docs \<Rightarrow> (st', Some ErrorIndexClosed)
      | Unreadable err \<Rightarrow> (st', Some ErrorIndexClosed))"

text \<open>
  \<^verbatim>\<open>index.Search(req)\<close>: the hits are the search engine's (\<open>search_hits\<close> of the
  environment, on the stored documents and the query string); bleve computes the
  fragments of a hit only when the request asks for highlighting.
\<close>

definition index_Search :: "env \<Rightarrow> string \<Rightarrow> SearchRequest \<Rightarrow> state \<Rightarrow> state \<times> (error + SearchResult)" where
  "index_Search e index req st =
     (let st' = st\<lparr>calls := calls st @ [Call_Search index req]\<rparr> in
      case disk st index of
        IndexDir docs \<Rightarrow>
          (case search_hits e docs (Query req) of
             Inl err \<Rightarrow> (st', Inl err)
           | Inr hits \<Rightarrow>
               (st', Inr (if Highlight req = None
                          then map (\<lambda>h. h\<lparr>Fragments := []\<rparr>) hits else hits)))
      | NoPath \<Rightarrow> (st', Inl ErrorIndexClosed)
      | RegularFile \<Rightarrow> (st', Inl ErrorIndexClosed)
      | MetaMissing docs \<Rightarrow> (st', Inl ErrorIndexClosed)
      | Unreadable err \<Rightarrow> (st', Inl ErrorIndexClosed))"

definition index_Close :: "string \<Rightarrow> state \<Rightarrow> state" where
  "index_Close index st = st\<lparr>calls := calls st @ [Call_Close index]\<rparr>"

text \<open>\<^verbatim>\<open>bleve.NewSearchRequest(q)\<close>: ten hits from the first, no highlighting.\<close>

definition NewSearchRequest :: "string \<Rightarrow> SearchRequest" where
  "NewSearchRequest q = \<lparr>Query = q, Size = 10, From = 0, Highlight = None\<rparr>"

definition ansi_Name :: string where
  "ansi_Name = ''ansi''"

subsection \<open>The functions both files share\<close>

text \<open>\<^verbatim>\<open>func openIndex() (bleve.Index, error)\<close>\<close>

definition openIndex :: "state \<Rightarrow> state \<times> (error + string)" where
  "openIndex st0 =
     (let st1 = logger_Print (''Opening index file: '' @ indexPath st0) st0 in
      case bleve_Open (indexPath st1) st1 of
        (st2, Inr index) \<Rightarrow> (logger_Print ''Index loaded successfully.'' st2, Inr index)
      | (st2, Inl err) \<Rightarrow>
          (let st3 = logger_Print ''Open failed, creating index.'' st2 in
           case bleve_New (indexPath st3) st3 of
             (st4, Inl err') \<Rightarrow> (st4, Inl err')
           | (st4, Inr index) \<Rightarrow> (logger_Print ''Index loaded successfully.'' st4, Inr index)))"

subsection \<open>The program of part_000\<close>

text \<open>
  The loop of \<open>parseDocument\<close> over the pages \<open>i\<close>, \<open>i + 1\<close>, ... up to \<open>n\<close>, with the
  text collected so far. The counter is an unbounded integer: Go's 64-bit \<^verbatim>\<open>int\<close>
  behaves the same for every page count below \<open>2^63 - 1\<close>.
\<close>

function pageLoop :: "Context \<Rightarrow> int \<Rightarrow> int \<Rightarrow> string \<Rightarrow> error + string" where
  "pageLoop ctx n i txt =
     (if i \<le> n then
        (case ExtractPageContent ctx i of
           Inl err \<Rightarrow> Inl err
         | Inr None \<Rightarrow> pageLoop ctx n (i + 1) txt
         | Inr (Some plainText) \<Rightarrow>
             (case io_Copy txt plainText of
                (txt', Some err) \<Rightarrow> Inl err
              | (txt', None) \<Rightarrow> pageLoop ctx n (i + 1) txt'))
      else Inr txt)"
  by pat_completeness auto
termination
  by (relation "measure (\<lambda>(ctx, n, i, txt). nat (n + 1 - i))") auto

text \<open>The BibTeX part, the same in both files.\<close>

definition parseBibtex :: "env \<Rightarrow> string \<Rightarrow> state \<Rightarrow> state \<times> (error + Document)" where
  "parseBibtex e txt st0 =
     (if bibtexFile st0 \<noteq> [] then
        (let st1 = logger_Print (''Attempting to parse BibTeX file: '' @ bibtexFile st0) st0 in
         case os_Open e (bibtexFile st1) of
           Inl err \<Rightarrow> (st1, Inl err)
         | Inr f \<Rightarrow>
             (case bibtex_Parse e f of
                Inl err \<Rightarrow> (st1, Inl err)
              | Inr ref \<Rightarrow> (st1, Inr \<lparr>Ref = Some ref, Txt = txt\<rparr>)))
      else (st0, Inr \<lparr>Ref = None, Txt = txt\<rparr>))"

text \<open>\<^verbatim>\<open>func parseDocument() (*Document, error)\<close>\<close>

definition parseDocument :: "env \<Rightarrow> state \<Rightarrow> state \<times> (error + Document)" where
  "parseDocument e st0 =
     (let st1 = logger_Print (''Opening PDF file: '' @ pdfFile st0) st0 in
      case ReadContextFile e (pdfFile st1) of
        Inl err \<Rightarrow> (st1, Inl err)
      | Inr ctx \<Rightarrow>
          (let st2 = logger_Print (''Parsing PDF file: '' @ pdfFile st1) st1 in
           case EnsurePageCount ctx of
             Inl err \<Rightarrow> (st2, Inl err)
           | Inr PageCount \<Rightarrow>
               (case pageLoop ctx PageCount 1 [] of
                  Inl err \<Rightarrow> (st2, Inl err)
                | Inr txt \<Rightarrow> parseBibtex e txt st2)))"

text \<open>\<^verbatim>\<open>func addEntry(index bleve.Index) error\<close>\<close>

definition addEntry :: "env \<Rightarrow> string \<Rightarrow> state \<Rightarrow> state \<times> error option" where
  "addEntry e index st0 =
     (case filepath_Abs e (pdfFile st0) of
        Inl err \<Rightarrow> (st0, Some err)
      | Inr absPath \<Rightarrow>
          (case parseDocument e st0 of
             (st1, Inl err) \<Rightarrow> (st1, Some err)
           | (st1, Inr doc) \<Rightarrow>
               index_Index index absPath doc
                 (logger_Print ''Updating index file with new entry.'' st1)))"

text \<open>
  \<^verbatim>\<open>func main()\<close>. The second component is \<open>Some err\<close> when \<open>main\<close> ends in
  \<^verbatim>\<open>panic(err)\<close>; the deferred \<^verbatim>\<open>index.Close()\<close> runs on every way out once the index
  is open.
\<close>

definition main :: "env \<Rightarrow> state \<Rightarrow> state \<times> error option" where
  "main e st0 =
     (case openIndex st0 of
        (st1, Inl err) \<Rightarrow> (st1, Some err)
      | (st1, Inr index) \<Rightarrow>
          if pdfFile st1 \<noteq> [] then
            (case addEntry e index st1 of
               (st2, Some err) \<Rightarrow> (index_Close index st2, Some err)
             | (st2, None) \<Rightarrow> (index_Close index st2, None))
          else if length (args st1) = 0 then
            (index_Close index (logger_Print ''No query given, leaving.'' st1), None)
          else
            (let s = ReplaceAll (Join (args st1) '' '') ''~'' ''-'';
                 searchRequest = NewSearchRequest s;
                 searchRequest =
                   (if verbose2 st1 then searchRequest\<lparr>Highlight := Some ansi_Name\<rparr>
                    else searchRequest)
             in case index_Search e index searchRequest st1 of
                  (st2, Inl err) \<Rightarrow> (index_Close index st2, Some err)
                | (st2, Inr result) \<Rightarrow>
                    (index_Close index (fmt_Println (SearchResult_String e result) st2), None)))"

text \<open>The part of \<open>init\<close> after the label \<^verbatim>\<open>skipDefaults\<close>.\<close>

definition skipDefaults :: "env \<Rightarrow> state \<Rightarrow> state \<times> error option" where
  "skipDefaults e st0 =
     (let st1 = logger_Print (''Using working directory: '' @ workDir st0) st0;
          st2 = st1\<lparr>indexPath := filepath_Join e (workDir st1) ''index.bleve''\<rparr>
      in case MkdirAll e (workDir st1) of
           None \<Rightarrow> (st2, None)
         | Some err \<Rightarrow> if err \<noteq> ErrExist then (st1, Some err) else (st2, None))"

text \<open>The choice of the working directory in \<open>init\<close>, the same in both files.\<close>

definition setWorkDir :: "env \<Rightarrow> state \<Rightarrow> state \<times> error option" where
  "setWorkDir e st0 =
     (let envDir = REFMAN_WORKDIR e in
      if envDir \<noteq> [] then skipDefaults e (st0\<lparr>workDir := envDir\<rparr>)
      else if GOOS e = ''windows''
        then skipDefaults e (st0\<lparr>workDir := filepath_Join e (APPDATA e) ''refman''\<rparr>)
      else
        (case UserHomeDir e of
           Inl err \<Rightarrow> (st0, Some err)
         | Inr home \<Rightarrow>
             skipDefaults e (st0\<lparr>workDir := filepath_Join e home ''.local/share/refman''\<rparr>)))"

text \<open>
  \<^verbatim>\<open>func init()\<close>: the flags, the logger, the working directory. Where
  \<^verbatim>\<open>flag.Parse\<close> does not accept the command line it prints its message to
  standard error and ends the process, before anything else is done.
\<close>

definition init :: "env \<Rightarrow> flags \<Rightarrow> state \<Rightarrow> state \<times> ending option" where
  "init e fl st0 =
     (let st1 = st0\<lparr>verbose := flag_v fl, verbose2 := flag_vv fl, pdfFile := flag_pdf fl,
                    bibtexFile := flag_bibtex fl, args := flag_Args fl\<rparr>
      in case flag_exit fl of
           Some code \<Rightarrow> (st1\<lparr>stderr := stderr st1 @ [UsageMsg]\<rparr>, Some (Exit code))
         | None \<Rightarrow>
             (let st2 = (if verbose st1 \<or> verbose2 st1 then st1\<lparr>logger := Stderr\<rparr>
                         else st1\<lparr>logger := Discard\<rparr>)
              in case setWorkDir e st2 of
                   (st3, Some err) \<Rightarrow> (st3, Some (Panic err))
                 | (st3, None) \<Rightarrow> (st3, None)))"

text \<open>
  One run of the program: \<open>init\<close>, then \<open>main\<close>. A panic ends the run and the Go
  runtime reports it on standard error. The second component says how the run
  ended, if it did not end by returning from \<open>main\<close>.
\<close>

definition panicked :: "state \<times> ending option \<Rightarrow> state \<times> ending option" where
  "panicked r =
     (case r of
        (st, Some (Panic err)) \<Rightarrow> (st\<lparr>stderr := stderr st @ [PanicMsg err]\<rparr>, Some (Panic err))
      | (st, Some (Exit code)) \<Rightarrow> (st, Some (Exit code))
      | (st, None) \<Rightarrow> (st, None))"

definition run :: "env \<Rightarrow> flags \<Rightarrow> state \<Rightarrow> state \<times> ending option" where
  "run e fl st0 =
     (case init e fl st0 of
        (st1, Some en) \<Rightarrow> panicked (st1, Some en)
      | (st1, None) \<Rightarrow>
          (case main e st1 of (st2, r) \<Rightarrow> panicked (st2, map_option Panic r)))"

subsection \<open>The program of src/main.go\<close>

text \<open>\<^verbatim>\<open>func parseDocument() (*Document, error)\<close> of \<^verbatim>\<open>src/main.go\<close>\<close>

definition parseDocument_main_go :: "env \<Rightarrow> state \<Rightarrow> state \<times> (error + Document)" where
  "parseDocument_main_go e st0 =
     (let st1 = logger_Print (''Opening PDF file: '' @ pdfFile st0) st0 in
      case pdf_Open e (pdfFile st1) of
        Inl err \<Rightarrow> (st1, Inl err)
      | Inr reader \<Rightarrow>
          (let st2 = logger_Print (''Parsing PDF file: '' @ pdfFile st1) st1 in
           case GetPlainText reader of
             Inl err \<Rightarrow> (st2, Inl err)
           | Inr plainText \<Rightarrow>
               (case io_Copy [] plainText of
                  (txt, Some err) \<Rightarrow> (st2, Inl err)
                | (txt, None) \<Rightarrow> parseBibtex e txt st2)))"

text \<open>\<^verbatim>\<open>func addEntry(index bleve.Index) error\<close> of \<^verbatim>\<open>src/main.go\<close>\<close>

definition addEntry_main_go :: "env \<Rightarrow> string \<Rightarrow> state \<Rightarrow> state \<times> error option" where
  "addEntry_main_go e index st0 =
     (case filepath_Abs e (pdfFile st0) of
        Inl err \<Rightarrow> (st0, Some err)
      | Inr absPath \<Rightarrow>
          (case parseDocument_main_go e st0 of
             (st1, Inl err) \<Rightarrow> (st1, Some err)
           | (st1, Inr doc) \<Rightarrow>
               index_Index index absPath doc
                 (logger_Print ''Updating index file with new entry.'' st1)))"

text \<open>
  \<^verbatim>\<open>func main()\<close> of \<^verbatim>\<open>src/main.go\<close>. The deferred \<^verbatim>\<open>stderr.Flush()\<close> runs last on
  every way out.
\<close>

definition main_main_go :: "env \<Rightarrow> state \<Rightarrow> state \<times> error option" where
  "main_main_go e st0 =
     (case openIndex st0 of
        (st1, Inl err) \<Rightarrow> (Flush st1, Some err)
      | (st1, Inr index) \<Rightarrow>
          if pdfFile st1 \<noteq> [] then
            (case addEntry_main_go e index st1 of
               (st2, Some err) \<Rightarrow> (Flush (index_Close index st2), Some err)
             | (st2, None) \<Rightarrow> (Flush (index_Close index st2), None))
          else if length (args st1) = 0 then
            (Flush (index_Close index (logger_Print ''No query given, leaving.'' st1)), None)
          else
            (let queryString = Join (args st1) '' '';
                 searchRequest = NewSearchRequest queryString;
                 searchRequest = searchRequest\<lparr>Highlight := Some ansi_Name\<rparr>
             in case index_Search e index searchRequest st1 of
                  (st2, Inl err) \<Rightarrow> (Flush (index_Close index st2), Some err)
                | (st2, Inr result) \<Rightarrow>
                    (Flush (index_Close index
                       (fmt_Println (SearchResult_String e result) st2)), None)))"

text \<open>
  \<^verbatim>\<open>func init()\<close> of \<^verbatim>\<open>src/main.go\<close>: the buffered logger first, the flags \<^verbatim>\<open>-pdf\<close>
  and \<^verbatim>\<open>-bibtex\<close> last. This file defines no \<^verbatim>\<open>-v\<close> and no \<^verbatim>\<open>-vv\<close>, so
  \<^verbatim>\<open>flag.Parse\<close> ends the process on them too. The deferred \<^verbatim>\<open>stderr.Flush()\<close> runs
  when \<open>init\<close> returns or panics; it does not run when \<^verbatim>\<open>flag.Parse\<close> ends the
  process, and what the buffer holds then is lost.
\<close>

definition init_main_go :: "env \<Rightarrow> flags \<Rightarrow> state \<Rightarrow> state \<times> ending option" where
  "init_main_go e fl st0 =
     (let st1 = st0\<lparr>logger := Buffered, bufw := []\<rparr> in
      case setWorkDir e st1 of
        (st2, Some err) \<Rightarrow> (Flush st2, Some (Panic err))
      | (st2, None) \<Rightarrow>
          (let st3 = st2\<lparr>pdfFile := flag_pdf fl, bibtexFile := flag_bibtex fl,
                         args := flag_Args fl\<rparr>
           in case flag_exit fl of
                Some code \<Rightarrow> (st3\<lparr>stderr := stderr st3 @ [UsageMsg]\<rparr>, Some (Exit code))
              | None \<Rightarrow>
                  if flag_v fl \<or> flag_vv fl
                  then (st3\<lparr>stderr := stderr st3 @ [UsageMsg]\<rparr>, Some (Exit 2))
                  else (Flush st3, None)))"

definition run_main_go :: "env \<Rightarrow> flags \<Rightarrow> state \<Rightarrow> state \<times> ending option" where
  "run_main_go e fl st0 =
     (case init_main_go e fl st0 of
        (st1, Some en) \<Rightarrow> panicked (st1, Some en)
      | (st1, None) \<Rightarrow>
          (case main_main_go e st1 of (st2, r) \<Rightarrow> panicked (st2, map_option Panic r)))"

subsection \<open>Reading a run\<close>

text \<open>The search requests and the insertions of a trace, and the log messages of a stream.\<close>

fun searches :: "call list \<Rightarrow> SearchRequest list" where
  "searches [] = []"
| "searches (Call_Search index req # cs) = req # searches cs"
| "searches (c # cs) = searches cs"

fun insertions :: "call list \<Rightarrow> (string \<times> Document) list" where
  "insertions [] = []"
| "insertions (Call_Index index id' data # cs) = (id', data) # insertions cs"
| "insertions (c # cs) = insertions cs"

fun logs :: "err_line list \<Rightarrow> string list" where
  "logs [] = []"
| "logs (LogMsg m # ls) = m # logs ls"
| "logs (l # ls) = logs ls"

text \<open>The documents an index location holds: none where there is no index.\<close>

fun documents :: "disk_entry \<Rightarrow> (string \<times> Document) list" where
  "documents (IndexDir docs) = docs"
| "documents (MetaMissing docs) = docs"
| "documents NoPath = []"
| "documents RegularFile = []"
| "documents (Unreadable err) = []"

text \<open>The text a page contributes: what its reader delivers, nothing for a nil reader.\<close>

definition page_text :: "Context \<Rightarrow> int \<Rightarrow> string" where
  "page_text ctx i =
     (case ExtractPageContent ctx i of
        Inr (Some (Reader bytes err)) \<Rightarrow> bytes
      | Inr None \<Rightarrow> []
      | Inl err \<Rightarrow> [])"




subsection \<open>Concrete inputs\<close>

text \<open>A disk with no index anywhere.\<close>

definition disk_none :: "string \<Rightarrow> disk_entry" where
  "disk_none = (\<lambda>p. NoPath)"

text \<open>A process at its start: zero values, empty streams, a given disk.\<close>

definition start :: "(string \<Rightarrow> disk_entry) \<Rightarrow> state" where
  "start d =
     \<lparr>workDir = [], indexPath = [], verbose = False, verbose2 = False, pdfFile = [],
      bibtexFile = [], args = [], logger = Discard, stdout = [], stderr = [], bufw = [],
      disk = d, calls = []\<rparr>"

text \<open>
  A PDF of three pages, the second without content; a PDF whose second page
  cannot be extracted.
\<close>

definition ctx_paper :: Context where
  "ctx_paper =
     \<lparr>EnsurePageCount = Inr 3,
      ExtractPageContent = (\<lambda>i.
        if i = 1 then Inr (Some (Reader ''distributed '' None))
        else if i = 2 then Inr None
        else if i = 3 then Inr (Some (Reader ''consensus'' None))
        else Inl (OtherError ''no such page''))\<rparr>"

definition ctx_broken :: Context where
  "ctx_broken =
     \<lparr>EnsurePageCount = Inr 2,
      ExtractPageContent = (\<lambda>i.
        if i = 1 then Inr (Some (Reader ''half '' None))
        else Inl (OtherError ''bad content stream''))\<rparr>"

definition doc_old :: Document where
  "doc_old = \<lparr>Ref = Some (BibTex [(''title'', ''Old'')]), Txt = ''old text''\<rparr>"

definition doc_paper :: Document where
  "doc_paper = \<lparr>Ref = None, Txt = ''distributed consensus''\<rparr>"

text \<open>
  An environment on Linux with \<^verbatim>\<open>REFMAN_WORKDIR=/data\<close>; the search engine finds the
  documents whose text is the query string.
\<close>

definition env_ex :: env where
  "env_ex =
     \<lparr>REFMAN_WORKDIR = ''/data'', APPDATA = [], GOOS = ''linux'',
      UserHomeDir = Inr ''/home/u'',
      MkdirAll = (\<lambda>p. None),
      filepath_Join = (\<lambda>a b. a @ ''/'' @ b),
      filepath_Abs = (\<lambda>p. Inr (''/cwd/'' @ p)),
      ReadContextFile = (\<lambda>p. if p = ''paper.pdf'' then Inr ctx_paper
                               else if p = ''broken.pdf'' then Inr ctx_broken
                               else Inl (OtherError ''no such file'')),
      pdf_Open = (\<lambda>p. if p = ''paper.pdf''
                        then Inr \<lparr>GetPlainText = Inr (Reader ''distributed consensus'' None)\<rparr>
                        else Inl (OtherError ''no such file'')),
      os_Open = (\<lambda>p. if p = ''paper.bib'' then Inr ''@article{}''
                       else Inl (OtherError ''no such file'')),
      bibtex_Parse = (\<lambda>f. Inl (OtherError ''parse error'')),
      search_hits = (\<lambda>docs q.
        Inr (map (\<lambda>kv. \<lparr>ID = fst kv, Fragments = [Txt (snd kv)]\<rparr>)
               (filter (\<lambda>kv. Txt (snd kv) = q) docs))),
      SearchResult_String = (\<lambda>r. concat (map ID r))\<rparr>"

definition index_ex :: string where
  "index_ex = ''/data/index.bleve''"

definition flags_none :: flags where
  "flags_none =
     \<lparr>flag_v = False, flag_vv = False, flag_pdf = [], flag_bibtex = [], flag_Args = [],
      flag_exit = None\<rparr>"

definition flags_query :: flags where
  "flags_query = flags_none\<lparr>flag_Args := [''consensus~2'', ''raft'']\<rparr>"


text \<open>A revision of the same PDF, with one page.\<close>

definition ctx_revised :: Context where
  "ctx_revised =
     \<lparr>EnsurePageCount = Inr 1,
      ExtractPageContent = (\<lambda>i.
        if i = 1 then Inr (Some (Reader ''revised'' None))
        else Inl (OtherError ''no such page''))\<rparr>"

definition doc_revised :: Document where
  "doc_revised = \<lparr>Ref = None, Txt = ''revised''\<rparr>"

definition env_ex2 :: env where
  "env_ex2 = env_ex\<lparr>ReadContextFile := (\<lambda>p. Inr ctx_revised)\<rparr>"




text \<open>A disk with an index that holds an older document for the PDF.\<close>

definition disk_ex :: "string \<Rightarrow> disk_entry" where
  "disk_ex = (\<lambda>p. if p = index_ex then IndexDir [(''/cwd/paper.pdf'', doc_old)] else NoPath)"

text \<open>States after \<open>init\<close>: the index absent, unreadable, present.\<close>

definition st_absent :: state where
  "st_absent = (start disk_none)\<lparr>indexPath := index_ex\<rparr>"

definition st_corrupt :: state where
  "st_corrupt = (start (\<lambda>p. Unreadable ErrorIndexMetaCorrupt))\<lparr>indexPath := index_ex\<rparr>"

definition st_ioerr :: state where
  "st_ioerr =
     (start (\<lambda>p. Unreadable (OtherError ''input/output error'')))\<lparr>indexPath := index_ex\<rparr>"

definition st_paper :: state where
  "st_paper = (start disk_ex)\<lparr>indexPath := index_ex, pdfFile := ''paper.pdf''\<rparr>"



text \<open>The second ingestion of the PDF starts from the disk the first one left.\<close>

definition st_again :: state where
  "st_again =
     (start (disk (fst (addEntry env_ex index_ex st_paper))))
       \<lparr>indexPath := index_ex, pdfFile := ''paper.pdf''\<rparr>"

text \<open>States after \<open>init\<close> for a query, for \<^verbatim>\<open>-pdf\<close> with query terms, with and without \<^verbatim>\<open>-vv\<close>.\<close>

definition st_query :: state where
  "st_query =
     (start disk_ex)\<lparr>indexPath := index_ex, args := [''consensus~2'', ''raft'']\<rparr>"

definition st_both :: state where
  "st_both =
     (start disk_ex)\<lparr>indexPath := index_ex, pdfFile := ''paper.pdf'', args := [''raft'']\<rparr>"

definition st_query_vv :: state where
  "st_query_vv =
     (start disk_ex)\<lparr>indexPath := index_ex, verbose2 := True, logger := Stderr,
                     args := [''old text'']\<rparr>"

definition st_query_plain :: state where
  "st_query_plain = (start disk_ex)\<lparr>indexPath := index_ex, args := [''old text'']\<rparr>"



section \<open>Properties\<close>

subsection \<open>What a step leaves unchanged\<close>

declare pageLoop.simps [simp del]

declare ReplaceAll.simps [simp del]

lemma searches_append [simp]: "searches (xs @ ys) = searches xs @ searches ys"
  by (induction xs rule: searches.induct) simp_all

lemma insertions_append [simp]: "insertions (xs @ ys) = insertions xs @ insertions ys"
  by (induction xs rule: insertions.induct) simp_all

lemma logs_append [simp]: "logs (xs @ ys) = logs xs @ logs ys"
  by (induction xs rule: logs.induct) simp_all

lemma logger_Print_frame [simp]:
  "disk (logger_Print m st) = disk st"
  "calls (logger_Print m st) = calls st"
  "stdout (logger_Print m st) = stdout st"
  "logger (logger_Print m st) = logger st"
  "pdfFile (logger_Print m st) = pdfFile st"
  "bibtexFile (logger_Print m st) = bibtexFile st"
  "args (logger_Print m st) = args st"
  "verbose (logger_Print m st) = verbose st"
  "verbose2 (logger_Print m st) = verbose2 st"
  "indexPath (logger_Print m st) = indexPath st"
  "workDir (logger_Print m st) = workDir st"
  by (simp_all add: logger_Print_def split: writer.splits)

lemma logger_Print_Discard [simp]: "logger st = Discard \<Longrightarrow> logger_Print m st = st"
  by (simp add: logger_Print_def)

lemma index_Close_frame [simp]:
  "disk (index_Close index st) = disk st"
  "stdout (index_Close index st) = stdout st"
  "stderr (index_Close index st) = stderr st"
  "bufw (index_Close index st) = bufw st"
  "logger (index_Close index st) = logger st"
  "calls (index_Close index st) = calls st @ [Call_Close index]"
  by (simp_all add: index_Close_def)

lemma index_Index_frame [simp]:
  "stdout (fst (index_Index index a doc st)) = stdout st"
  "stderr (fst (index_Index index a doc st)) = stderr st"
  "bufw (fst (index_Index index a doc st)) = bufw st"
  "logger (fst (index_Index index a doc st)) = logger st"
  "searches (calls (fst (index_Index index a doc st))) = searches (calls st)"
  by (simp_all add: index_Index_def Let_def split: disk_entry.splits)

lemma index_Search_frame [simp]:
  "stdout (fst (index_Search e index req st)) = stdout st"
  "stderr (fst (index_Search e index req st)) = stderr st"
  "bufw (fst (index_Search e index req st)) = bufw st"
  "logger (fst (index_Search e index req st)) = logger st"
  "disk (fst (index_Search e index req st)) = disk st"
  "calls (fst (index_Search e index req st)) = calls st @ [Call_Search index req]"
  by (simp_all add: index_Search_def Let_def split: disk_entry.splits sum.splits)

lemma Flush_frame [simp]:
  "stdout (Flush st) = stdout st"
  "disk (Flush st) = disk st"
  "calls (Flush st) = calls st"
  "logger (Flush st) = logger st"
  "bufw (Flush st) = []"
  "stderr (Flush st) = stderr st @ bufw st"
  by (simp_all add: Flush_def)

lemma fmt_Println_frame [simp]:
  "stdout (fmt_Println s st) = stdout st @ [s]"
  "stderr (fmt_Println s st) = stderr st"
  "bufw (fmt_Println s st) = bufw st"
  "disk (fmt_Println s st) = disk st"
  "calls (fmt_Println s st) = calls st"
  "logger (fmt_Println s st) = logger st"
  by (simp_all add: fmt_Println_def)

subsection \<open>Opening the index\<close>

lemma openIndex_NoPath:
  "disk st (indexPath st) = NoPath \<Longrightarrow>
   openIndex st =
     (logger_Print ''Index loaded successfully.''
        ((logger_Print ''Open failed, creating index.''
           ((logger_Print (''Opening index file: '' @ indexPath st) st)
              \<lparr>calls := calls st @ [Call_Open (indexPath st)]\<rparr>))
         \<lparr>calls := calls st @ [Call_Open (indexPath st), Call_New (indexPath st)],
          disk := (disk st)(indexPath st := IndexDir [])\<rparr>),
      Inr (indexPath st))"
  by (simp add: openIndex_def bleve_Open_def bleve_New_def Let_def)

lemma openIndex_Unreadable:
  "disk st (indexPath st) = Unreadable err \<Longrightarrow>
   openIndex st =
     ((logger_Print ''Open failed, creating index.''
           ((logger_Print (''Opening index file: '' @ indexPath st) st)
              \<lparr>calls := calls st @ [Call_Open (indexPath st)]\<rparr>))
         \<lparr>calls := calls st @ [Call_Open (indexPath st), Call_New (indexPath st)]\<rparr>,
      Inl ErrorIndexPathExists)"
  by (simp add: openIndex_def bleve_Open_def bleve_New_def Let_def)

lemma openIndex_IndexDir:
  "disk st (indexPath st) = IndexDir docs \<Longrightarrow>
   openIndex st =
     (logger_Print ''Index loaded successfully.''
        ((logger_Print (''Opening index file: '' @ indexPath st) st)
              \<lparr>calls := calls st @ [Call_Open (indexPath st)]\<rparr>),
      Inr (indexPath st))"
  by (simp add: openIndex_def bleve_Open_def bleve_New_def Let_def)

lemma openIndex_RegularFile:
  "disk st (indexPath st) = RegularFile \<Longrightarrow>
   openIndex st =
     ((logger_Print ''Open failed, creating index.''
           ((logger_Print (''Opening index file: '' @ indexPath st) st)
              \<lparr>calls := calls st @ [Call_Open (indexPath st)]\<rparr>))
         \<lparr>calls := calls st @ [Call_Open (indexPath st), Call_New (indexPath st)]\<rparr>,
      Inl (OtherError ''mkdir: not a directory''))"
  by (simp add: openIndex_def bleve_Open_def bleve_New_def Let_def)

lemma openIndex_MetaMissing:
  "disk st (indexPath st) = MetaMissing docs \<Longrightarrow>
   openIndex st =
     (logger_Print ''Index loaded successfully.''
        ((logger_Print ''Open failed, creating index.''
           ((logger_Print (''Opening index file: '' @ indexPath st) st)
              \<lparr>calls := calls st @ [Call_Open (indexPath st)]\<rparr>))
         \<lparr>calls := calls st @ [Call_Open (indexPath st), Call_New (indexPath st)],
          disk := (disk st)(indexPath st := IndexDir docs)\<rparr>),
      Inr (indexPath st))"
  by (simp add: openIndex_def bleve_Open_def bleve_New_def Let_def)

lemmas openIndex_cases = openIndex_NoPath openIndex_RegularFile openIndex_MetaMissing
  openIndex_Unreadable openIndex_IndexDir

lemma openIndex_calls:
  "\<exists>rest. calls (fst (openIndex st)) = calls st @ Call_Open (indexPath st) # rest
          \<and> searches rest = [] \<and> insertions rest = []"
  by (cases "disk st (indexPath st)") (simp_all add: openIndex_cases)


lemma openIndex_frame [simp]:
  "stdout (fst (openIndex st)) = stdout st"
  "logger (fst (openIndex st)) = logger st"
  "pdfFile (fst (openIndex st)) = pdfFile st"
  "bibtexFile (fst (openIndex st)) = bibtexFile st"
  "args (fst (openIndex st)) = args st"
  "verbose2 (fst (openIndex st)) = verbose2 st"
  "indexPath (fst (openIndex st)) = indexPath st"
  "searches (calls (fst (openIndex st))) = searches (calls st)"
  "insertions (calls (fst (openIndex st))) = insertions (calls st)"
  by (cases "disk st (indexPath st)"; simp add: openIndex_cases)+

text \<open>
  C4. Where nothing lies at the index path, \<open>openIndex\<close> does not fail: it returns
  the handle of a new index, the disk now holds an empty index at that path, and
  a search on it reaches the search engine with no documents.
\<close>

theorem openIndex_creates_absent:
  assumes "disk st (indexPath st) = NoPath"
  shows "snd (openIndex st) = Inr (indexPath st)
       \<and> disk (fst (openIndex st)) = (disk st)(indexPath st := IndexDir [])
       \<and> snd (index_Search e (indexPath st) req (fst (openIndex st))) =
           (case search_hits e [] (Query req) of
              Inl err \<Rightarrow> Inl err
            | Inr hits \<Rightarrow>
                Inr (if Highlight req = None then map (\<lambda>h. h\<lparr>Fragments := []\<rparr>) hits
                     else hits))"
  using assms
  by (simp add: openIndex_NoPath index_Search_def Let_def split: sum.splits)

theorem openIndex_creates_absent_witness:
  "disk st_absent (indexPath st_absent) = NoPath
   \<and> snd (openIndex st_absent) = Inr index_ex
   \<and> disk (fst (openIndex st_absent)) index_ex = IndexDir []
   \<and> snd (index_Search env_ex index_ex (NewSearchRequest ''consensus'')
        (fst (openIndex st_absent))) = Inr []"
proof -
  have h: "disk st_absent (indexPath st_absent) = NoPath"
    by (simp add: st_absent_def start_def disk_none_def)
  have p: "indexPath st_absent = index_ex"
    by (simp add: st_absent_def)
  have q: "search_hits env_ex [] (Query (NewSearchRequest ''consensus'')) = Inr []"
    by (simp add: env_ex_def)
  show ?thesis
    using h openIndex_creates_absent [OF h, of env_ex "NewSearchRequest ''consensus''"]
    by (simp add: p q)
qed

text \<open>
  C5, as stated, fails: at an index whose metadata is corrupt \<^verbatim>\<open>bleve.Open\<close> fails
  with the corruption error, and \<open>openIndex\<close> returns another error, that of the
  creation it tried next; an I/O failure of \<open>Open\<close> ends in the same error.
\<close>

theorem openIndex_hides_open_error_counterexample:
  "snd (bleve_Open index_ex st_corrupt) = Inl ErrorIndexMetaCorrupt
   \<and> snd (openIndex st_corrupt) = Inl ErrorIndexPathExists
   \<and> snd (bleve_Open index_ex st_ioerr) = Inl (OtherError ''input/output error'')
   \<and> snd (openIndex st_ioerr) = Inl ErrorIndexPathExists"
  by (simp add: openIndex_Unreadable bleve_Open_def st_corrupt_def st_ioerr_def start_def)

text \<open>
  C5, amended. When \<^verbatim>\<open>bleve.Open\<close> fails, for whatever reason, \<open>openIndex\<close> drops
  its error, which is neither returned nor logged, and calls \<^verbatim>\<open>bleve.New\<close>: what
  \<open>openIndex\<close> returns and what it leaves on disk is what \<^verbatim>\<open>bleve.New\<close> returns
  and leaves, the new index where the creation succeeds (as it does where nothing
  lies at the path) and the error of the creation where it fails. The log holds
  the fixed messages only.
\<close>

theorem openIndex_returns_creation:
  assumes "snd (bleve_Open (indexPath st) st) = Inl err"
  shows "snd (openIndex st) = snd (bleve_New (indexPath st) st)
       \<and> disk (fst (openIndex st)) = disk (fst (bleve_New (indexPath st) st))
       \<and> (disk st (indexPath st) = NoPath \<longrightarrow> snd (openIndex st) = Inr (indexPath st))
       \<and> logs (stderr (fst (openIndex st))) =
           logs (stderr st) @
           (if logger st = Stderr
            then [''Opening index file: '' @ indexPath st, ''Open failed, creating index.''] @
                 (case snd (bleve_New (indexPath st) st) of
                    Inl err' \<Rightarrow> []
                  | Inr index \<Rightarrow> [''Index loaded successfully.''])
            else [])"
  using assms
  by (cases "disk st (indexPath st)")
     (simp_all add: openIndex_cases bleve_Open_def bleve_New_def
        logger_Print_def split: writer.splits)

theorem openIndex_returns_creation_witness:
  "snd (bleve_Open (indexPath st_corrupt) st_corrupt) = Inl ErrorIndexMetaCorrupt
   \<and> snd (bleve_New (indexPath st_corrupt) st_corrupt) = Inl ErrorIndexPathExists
   \<and> snd (openIndex st_corrupt) = Inl ErrorIndexPathExists
   \<and> disk (fst (openIndex st_corrupt)) = disk st_corrupt
   \<and> logs (stderr (fst (openIndex st_corrupt))) = []"
proof -
  have h: "snd (bleve_Open (indexPath st_corrupt) st_corrupt) = Inl ErrorIndexMetaCorrupt"
    by (simp add: bleve_Open_def st_corrupt_def start_def)
  have n: "snd (bleve_New (indexPath st_corrupt) st_corrupt) = Inl ErrorIndexPathExists"
    "disk (fst (bleve_New (indexPath st_corrupt) st_corrupt)) = disk st_corrupt"
    by (simp_all add: bleve_New_def st_corrupt_def start_def)
  have l: "logger st_corrupt = Discard" "stderr st_corrupt = []"
    by (simp_all add: st_corrupt_def start_def)
  show ?thesis
    using h n openIndex_returns_creation [OF h]
    by (simp add: l)
qed

subsection \<open>Parsing a document\<close>

lemma parseBibtex_frame [simp]:
  "disk (fst (parseBibtex e t st)) = disk st"
  "calls (fst (parseBibtex e t st)) = calls st"
  "stdout (fst (parseBibtex e t st)) = stdout st"
  "logger (fst (parseBibtex e t st)) = logger st"
  by (simp_all add: parseBibtex_def Let_def split: sum.splits)

lemma parseDocument_frame [simp]:
  "disk (fst (parseDocument e st)) = disk st"
  "calls (fst (parseDocument e st)) = calls st"
  "stdout (fst (parseDocument e st)) = stdout st"
  "logger (fst (parseDocument e st)) = logger st"
  by (simp_all add: parseDocument_def Let_def split: sum.splits)

lemma parseBibtex_Txt:
  "snd (parseBibtex e t st) = Inr doc \<Longrightarrow> Txt doc = t"
  by (auto simp add: parseBibtex_def Let_def split: if_splits sum.splits)

lemma parseBibtex_none:
  "bibtexFile st = [] \<Longrightarrow> snd (parseBibtex e t st) = Inr \<lparr>Ref = None, Txt = t\<rparr>"
  by (simp add: parseBibtex_def)



text \<open>One turn of the loop over the pages, case by case.\<close>

lemma pageLoop_done: "\<not> i \<le> n \<Longrightarrow> pageLoop ctx n i t = Inr t"
  by (subst pageLoop.simps) simp

lemma pageLoop_error:
  "i \<le> n \<Longrightarrow> ExtractPageContent ctx i = Inl err \<Longrightarrow> pageLoop ctx n i t = Inl err"
  by (subst pageLoop.simps) simp

lemma pageLoop_nil:
  "i \<le> n \<Longrightarrow> ExtractPageContent ctx i = Inr None \<Longrightarrow>
   pageLoop ctx n i t = pageLoop ctx n (i + 1) t"
  by (subst pageLoop.simps) simp

lemma pageLoop_copy:
  "i \<le> n \<Longrightarrow> ExtractPageContent ctx i = Inr (Some (Reader bytes None)) \<Longrightarrow>
   pageLoop ctx n i t = pageLoop ctx n (i + 1) (t @ bytes)"
  by (subst pageLoop.simps) simp

lemma pageLoop_copy_error:
  "i \<le> n \<Longrightarrow> ExtractPageContent ctx i = Inr (Some (Reader bytes (Some err))) \<Longrightarrow>
   pageLoop ctx n i t = Inl err"
  by (subst pageLoop.simps) simp

lemma pageLoop_concat:
  "pageLoop ctx n i t = Inr r \<Longrightarrow> r = t @ concat (map (page_text ctx) [i..n])"
proof (induction ctx n i t rule: pageLoop.induct)
  case (1 ctx n i t)
  show ?case
  proof (cases "i \<le> n")
    case False
    then show ?thesis using "1.prems" by (simp add: pageLoop_done)
  next
    case True
    then have up: "[i..n] = i # [i + 1..n]" by (simp add: upto_rec1)
    show ?thesis
    proof (cases "ExtractPageContent ctx i")
      case (Inl err)
      then show ?thesis using True "1.prems" by (simp add: pageLoop_error)
    next
      case (Inr ro)
      show ?thesis
      proof (cases ro)
        case None
        have pt: "page_text ctx i = []" using Inr None by (simp add: page_text_def)
        have "pageLoop ctx n (i + 1) t = Inr r"
          using True Inr None "1.prems" by (simp add: pageLoop_nil)
        from "1.IH"(1) [OF True Inr None this]
        show ?thesis using up pt by simp
      next
        case (Some plainText)
        obtain bytes err where rd: "plainText = Reader bytes err" by (cases plainText)
        have err: "err = None"
          using True Inr Some rd "1.prems" by (cases err) (simp_all add: pageLoop_copy_error)
        have pt: "page_text ctx i = bytes" using Inr Some rd by (simp add: page_text_def)
        have eq: "(t @ bytes, None) = io_Copy t plainText" using rd err by simp
        have "pageLoop ctx n (i + 1) (t @ bytes) = Inr r"
          using True Inr Some rd err "1.prems" by (simp add: pageLoop_copy)
        from "1.IH"(2) [OF True Inr Some eq refl this]
        show ?thesis using up pt by simp
      qed
    qed
  qed
qed

lemma pageLoop_succeeds:
  "(\<forall>j. i \<le> j \<and> j \<le> n \<longrightarrow>
      ExtractPageContent ctx j = Inr None
      \<or> (\<exists>bytes. ExtractPageContent ctx j = Inr (Some (Reader bytes None)))) \<Longrightarrow>
   \<exists>r. pageLoop ctx n i t = Inr r"
proof (induction ctx n i t rule: pageLoop.induct)
  case (1 ctx n i t)
  show ?case
  proof (cases "i \<le> n")
    case False
    then show ?thesis by (simp add: pageLoop_done)
  next
    case True
    have rest: "\<forall>j. i + 1 \<le> j \<and> j \<le> n \<longrightarrow>
      ExtractPageContent ctx j = Inr None
      \<or> (\<exists>bytes. ExtractPageContent ctx j = Inr (Some (Reader bytes None)))"
      using "1.prems" by simp
    have "ExtractPageContent ctx i = Inr None
      \<or> (\<exists>bytes. ExtractPageContent ctx i = Inr (Some (Reader bytes None)))"
      using "1.prems" True by simp
    then consider "ExtractPageContent ctx i = Inr None"
      | bytes where "ExtractPageContent ctx i = Inr (Some (Reader bytes None))"
      by blast
    then show ?thesis
    proof cases
      case 1
      from "1.IH"(1) [OF True 1 refl rest]
      show ?thesis using True 1 by (simp add: pageLoop_nil)
    next
      case 2
      have eq: "(t @ bytes, None) = io_Copy t (Reader bytes None)" by simp
      from "1.IH"(2) [OF True 2 refl eq refl rest]
      show ?thesis using True 2 by (simp add: pageLoop_copy)
    qed
  qed
qed



lemma parseDocument_Txt:
  assumes "snd (parseDocument e st) = Inr doc"
  shows "\<exists>ctx n. ReadContextFile e (pdfFile st) = Inr ctx \<and> EnsurePageCount ctx = Inr n
           \<and> Txt doc = concat (map (page_text ctx) [1..n])"
proof -
  obtain ctx where c: "ReadContextFile e (pdfFile st) = Inr ctx"
    using assms
    by (cases "ReadContextFile e (pdfFile st)") (simp_all add: parseDocument_def Let_def)
  from assms c obtain n where n: "EnsurePageCount ctx = Inr n"
    by (cases "EnsurePageCount ctx") (simp_all add: parseDocument_def Let_def)
  from assms c n obtain t where t: "pageLoop ctx n 1 [] = Inr t"
    by (cases "pageLoop ctx n 1 []") (simp_all add: parseDocument_def Let_def)
  from assms c n t have "Txt doc = t"
    by (simp add: parseDocument_def Let_def parseBibtex_Txt)
  moreover from pageLoop_concat [OF t] have "t = concat (map (page_text ctx) [1..n])" by simp
  ultimately show ?thesis using c n by blast
qed

lemma parseDocument_pages_ok:
  assumes "ReadContextFile e (pdfFile st) = Inr ctx" and "EnsurePageCount ctx = Inr n"
      and "bibtexFile st = []"
      and "\<forall>i. 1 \<le> i \<and> i \<le> n \<longrightarrow>
              ExtractPageContent ctx i = Inr None
              \<or> (\<exists>bytes. ExtractPageContent ctx i = Inr (Some (Reader bytes None)))"
  shows "snd (parseDocument e st) = Inr \<lparr>Ref = None, Txt = concat (map (page_text ctx) [1..n])\<rparr>"
proof -
  obtain t where t: "pageLoop ctx n 1 [] = Inr t"
    using assms(4) pageLoop_succeeds [of 1 n ctx "[]"] by blast
  from pageLoop_concat [OF t] have "t = concat (map (page_text ctx) [1..n])" by simp
  then show ?thesis
    using assms(1,2,3) t by (simp add: parseDocument_def Let_def parseBibtex_none)
qed

subsection \<open>Adding an entry\<close>

lemma addEntry_frame [simp]:
  "stdout (fst (addEntry e index st)) = stdout st"
  "logger (fst (addEntry e index st)) = logger st"
  "searches (calls (fst (addEntry e index st))) = searches (calls st)"
proof -
  obtain st1 r where p: "parseDocument e st = (st1, r)" by (cases "parseDocument e st")
  have f: "stdout st1 = stdout st" "logger st1 = logger st" "calls st1 = calls st"
    using parseDocument_frame [of e st] p by simp_all
  show "stdout (fst (addEntry e index st)) = stdout st"
    using p f by (simp add: addEntry_def split: sum.splits)
  show "logger (fst (addEntry e index st)) = logger st"
    using p f by (simp add: addEntry_def split: sum.splits)
  show "searches (calls (fst (addEntry e index st))) = searches (calls st)"
    using p f by (simp add: addEntry_def split: sum.splits)
qed



lemma addEntry_ok:
  assumes "filepath_Abs e (pdfFile st) = Inr a" and "a \<noteq> []"
      and "snd (parseDocument e st) = Inr doc"
      and "disk st index = IndexDir docs"
  shows "snd (addEntry e index st) = None
       \<and> disk (fst (addEntry e index st)) =
           (disk st)(index := IndexDir ((a, doc) # filter (\<lambda>kv. fst kv \<noteq> a) docs))
       \<and> calls (fst (addEntry e index st)) = calls st @ [Call_Index index a doc]"
proof -
  obtain st1 where p: "parseDocument e st = (st1, Inr doc)"
    using assms(3) by (cases "parseDocument e st") simp
  have "disk st1 = disk st" "calls st1 = calls st"
    using parseDocument_frame [of e st] p by simp_all
  then show ?thesis using assms p
    by (simp add: addEntry_def index_Index_def Let_def)
qed

lemma addEntry_success:
  assumes "snd (addEntry e index st) = None"
  shows "\<exists>a doc docs. filepath_Abs e (pdfFile st) = Inr a \<and> a \<noteq> []
       \<and> snd (parseDocument e st) = Inr doc \<and> disk st index = IndexDir docs"
proof -
  obtain a where a: "filepath_Abs e (pdfFile st) = Inr a"
    using assms by (cases "filepath_Abs e (pdfFile st)") (simp_all add: addEntry_def)
  obtain st1 r where p: "parseDocument e st = (st1, r)" by (cases "parseDocument e st")
  obtain doc where d: "r = Inr doc"
    using assms a p by (cases r) (simp_all add: addEntry_def)
  have dk: "disk st1 = disk st" using parseDocument_frame [of e st] p by simp
  have "a \<noteq> []" using assms a p d
    by (auto simp add: addEntry_def index_Index_def Let_def)
  moreover have "\<exists>docs. disk st index = IndexDir docs"
    using assms a p d dk
    by (cases "disk st index")
       (auto simp add: addEntry_def index_Index_def Let_def split: if_splits)
  ultimately show ?thesis using a p d by auto
qed

subsection \<open>The program of part_000, mode by mode\<close>

lemma main_open_fails:
  "snd (openIndex st) = Inl err \<Longrightarrow> main e st = (fst (openIndex st), Some err)"
  by (cases "openIndex st") (simp add: main_def)

lemma main_ingest:
  assumes "snd (openIndex st) = Inr index" and "pdfFile st \<noteq> []"
  shows "main e st = (index_Close index (fst (addEntry e index (fst (openIndex st)))),
                      snd (addEntry e index (fst (openIndex st))))"
proof -
  obtain st1 where o: "openIndex st = (st1, Inr index)"
    using assms(1) by (cases "openIndex st") simp
  have "pdfFile st1 = pdfFile st" using openIndex_frame(3) [of st] o by simp
  then show ?thesis using o assms(2)
    by (cases "addEntry e index st1") (auto simp add: main_def split: option.splits)
qed

lemma main_noquery:
  assumes "snd (openIndex st) = Inr index" and "pdfFile st = []" and "args st = []"
  shows "main e st =
     (index_Close index (logger_Print ''No query given, leaving.'' (fst (openIndex st))), None)"
proof -
  obtain st1 where o: "openIndex st = (st1, Inr index)"
    using assms(1) by (cases "openIndex st") simp
  have "pdfFile st1 = pdfFile st" "args st1 = args st"
    using openIndex_frame [of st] o by simp_all
  then show ?thesis using o assms by (simp add: main_def)
qed

lemma main_query:
  assumes "snd (openIndex st) = Inr index" and "pdfFile st = []" and "args st \<noteq> []"
  shows "main e st =
     (let sr = index_Search e index
             \<lparr>Query = ReplaceAll (Join (args st) '' '') ''~'' ''-'', Size = 10, From = 0,
              Highlight = (if verbose2 st then Some ansi_Name else None)\<rparr>
             (fst (openIndex st))
      in case snd sr of
           Inl err \<Rightarrow> (index_Close index (fst sr), Some err)
         | Inr result \<Rightarrow>
             (index_Close index (fmt_Println (SearchResult_String e result) (fst sr)), None))"
proof -
  obtain st1 where o: "openIndex st = (st1, Inr index)"
    using assms(1) by (cases "openIndex st") simp
  have "pdfFile st1 = pdfFile st" "args st1 = args st" "verbose2 st1 = verbose2 st"
    using openIndex_frame [of st] o by simp_all
  then show ?thesis using o assms
    by (simp add: main_def Let_def NewSearchRequest_def split: prod.splits sum.splits)
qed

subsection \<open>Ingestion\<close>

lemma upto_1_3: "[1..3::int] = [1, 2, 3]"
  by (simp add: upto_rec1)




text \<open>
  C9. After a successful \<open>addEntry\<close> the document passed to \<^verbatim>\<open>index.Index\<close> has as
  text the contents of the pages 1 to \<open>PageCount\<close>, in this order, where a page
  with a nil reader contributes nothing. And when every page from 1 to
  \<open>PageCount\<close> gives a nil reader or a reader that reads without error (and no
  bibliography is asked for), \<open>parseDocument\<close> succeeds with that text.
\<close>

theorem stored_text_is_pages_in_order:
  "(snd (addEntry e index st) = None \<longrightarrow>
      (\<exists>a doc ctx n.
         calls (fst (addEntry e index st)) = calls st @ [Call_Index index a doc]
         \<and> ReadContextFile e (pdfFile st) = Inr ctx \<and> EnsurePageCount ctx = Inr n
         \<and> Txt doc = concat (map (page_text ctx) [1..n])))
   \<and> (ReadContextFile e (pdfFile st) = Inr ctx \<and> EnsurePageCount ctx = Inr n
        \<and> bibtexFile st = []
        \<and> (\<forall>i. 1 \<le> i \<and> i \<le> n \<longrightarrow>
              ExtractPageContent ctx i = Inr None
              \<or> (\<exists>bytes. ExtractPageContent ctx i = Inr (Some (Reader bytes None)))) \<longrightarrow>
       snd (parseDocument e st) = Inr \<lparr>Ref = None, Txt = concat (map (page_text ctx) [1..n])\<rparr>)"
proof (intro conjI impI)
  assume ok: "snd (addEntry e index st) = None"
  from addEntry_success [OF ok] obtain a doc docs where
    1: "filepath_Abs e (pdfFile st) = Inr a" "a \<noteq> []"
       "snd (parseDocument e st) = Inr doc" "disk st index = IndexDir docs"
    by blast
  from addEntry_ok [OF 1] parseDocument_Txt [OF 1(3)]
  show "\<exists>a doc ctx n.
         calls (fst (addEntry e index st)) = calls st @ [Call_Index index a doc]
         \<and> ReadContextFile e (pdfFile st) = Inr ctx \<and> EnsurePageCount ctx = Inr n
         \<and> Txt doc = concat (map (page_text ctx) [1..n])"
    by blast
next
  assume "ReadContextFile e (pdfFile st) = Inr ctx \<and> EnsurePageCount ctx = Inr n
        \<and> bibtexFile st = []
        \<and> (\<forall>i. 1 \<le> i \<and> i \<le> n \<longrightarrow>
              ExtractPageContent ctx i = Inr None
              \<or> (\<exists>bytes. ExtractPageContent ctx i = Inr (Some (Reader bytes None))))"
  then show "snd (parseDocument e st)
      = Inr \<lparr>Ref = None, Txt = concat (map (page_text ctx) [1..n])\<rparr>"
    using parseDocument_pages_ok by blast
qed

theorem stored_text_is_pages_in_order_witness:
  "snd (addEntry env_ex index_ex st_paper) = None
   \<and> calls (fst (addEntry env_ex index_ex st_paper)) =
       [Call_Index index_ex ''/cwd/paper.pdf'' doc_paper]
   \<and> ReadContextFile env_ex (pdfFile st_paper) = Inr ctx_paper
   \<and> EnsurePageCount ctx_paper = Inr 3
   \<and> ExtractPageContent ctx_paper 2 = Inr None
   \<and> snd (parseDocument env_ex st_paper) = Inr doc_paper
   \<and> Txt doc_paper = page_text ctx_paper 1 @ page_text ctx_paper 2 @ page_text ctx_paper 3"
proof -
  have r: "ReadContextFile env_ex (pdfFile st_paper) = Inr ctx_paper"
    by (simp add: env_ex_def st_paper_def start_def)
  have n: "EnsurePageCount ctx_paper = Inr 3" by (simp add: ctx_paper_def)
  have b: "bibtexFile st_paper = []" by (simp add: st_paper_def start_def)
  have p: "\<forall>i. 1 \<le> i \<and> i \<le> 3 \<longrightarrow>
              ExtractPageContent ctx_paper i = Inr None
              \<or> (\<exists>bytes. ExtractPageContent ctx_paper i = Inr (Some (Reader bytes None)))"
    by (simp add: ctx_paper_def)
  have t: "concat (map (page_text ctx_paper) [1..3]) = ''distributed consensus''"
    by (simp add: upto_1_3 page_text_def ctx_paper_def)
  have t': "page_text ctx_paper 1 @ page_text ctx_paper 2 @ page_text ctx_paper 3
     = ''distributed consensus''"
    by (simp add: page_text_def ctx_paper_def)
  have "snd (parseDocument env_ex st_paper) =
          Inr \<lparr>Ref = None, Txt = concat (map (page_text ctx_paper) [1..3])\<rparr>"
    using stored_text_is_pages_in_order [of env_ex index_ex st_paper ctx_paper 3] r n b p
    by blast
  then have d: "snd (parseDocument env_ex st_paper) = Inr doc_paper"
    by (simp add: t doc_paper_def)
  have a: "filepath_Abs env_ex (pdfFile st_paper) = Inr ''/cwd/paper.pdf''"
    by (simp add: env_ex_def st_paper_def)
  have k: "disk st_paper index_ex = IndexDir [(''/cwd/paper.pdf'', doc_old)]"
    by (simp add: st_paper_def start_def disk_ex_def)
  have c: "calls st_paper = []" by (simp add: st_paper_def start_def)
  from addEntry_ok [OF a _ d k]
  show ?thesis using r n d t' c by (simp add: doc_paper_def ctx_paper_def)
qed

text \<open>
  C6. Two successful ingestions of the same path, the second starting from the
  disk the first one left: both store under the absolute path that
  \<^verbatim>\<open>filepath.Abs\<close> returns; afterwards the index holds exactly one document under
  that identifier, the one parsed by the second ingestion, and the documents
  under other identifiers are those it held at the start.
\<close>

theorem addEntry_twice_overwrites:
  assumes "pdfFile st2 = pdfFile st1" and "filepath_Abs e2 = filepath_Abs e1"
      and "disk st2 = disk (fst (addEntry e1 index st1))"
      and "snd (addEntry e1 index st1) = None"
      and "snd (addEntry e2 index st2) = None"
  shows "\<exists>a doc1 doc2 docs docs'.
           filepath_Abs e1 (pdfFile st1) = Inr a
         \<and> snd (parseDocument e1 st1) = Inr doc1
         \<and> snd (parseDocument e2 st2) = Inr doc2
         \<and> calls (fst (addEntry e1 index st1)) = calls st1 @ [Call_Index index a doc1]
         \<and> calls (fst (addEntry e2 index st2)) = calls st2 @ [Call_Index index a doc2]
         \<and> disk st1 index = IndexDir docs
         \<and> disk (fst (addEntry e2 index st2)) index = IndexDir docs'
         \<and> filter (\<lambda>kv. fst kv = a) docs' = [(a, doc2)]
         \<and> filter (\<lambda>kv. fst kv \<noteq> a) docs' = filter (\<lambda>kv. fst kv \<noteq> a) docs"
proof -
  from addEntry_success [OF assms(4)] obtain a doc1 docs where
    1: "filepath_Abs e1 (pdfFile st1) = Inr a" "a \<noteq> []"
       "snd (parseDocument e1 st1) = Inr doc1" "disk st1 index = IndexDir docs"
    by blast
  note r1 = addEntry_ok [OF 1]
  from addEntry_success [OF assms(5)] obtain a' doc2 docs2 where
    2: "filepath_Abs e2 (pdfFile st2) = Inr a'" "a' \<noteq> []"
       "snd (parseDocument e2 st2) = Inr doc2" "disk st2 index = IndexDir docs2"
    by blast
  have aa: "a' = a" using 1(1) 2(1) assms(1,2) by simp
  have d2: "docs2 = (a, doc1) # filter (\<lambda>kv. fst kv \<noteq> a) docs"
    using 2(4) assms(3) r1 by simp
  note r2 = addEntry_ok [OF 2]
  let ?docs' = "(a, doc2) # filter (\<lambda>kv. fst kv \<noteq> a) docs2"
  have "disk (fst (addEntry e2 index st2)) index = IndexDir ?docs'"
    using r2 aa by simp
  moreover have "filter (\<lambda>kv. fst kv = a) ?docs' = [(a, doc2)]"
    by (simp add: d2)
  moreover have "filter (\<lambda>kv. fst kv \<noteq> a) ?docs' = filter (\<lambda>kv. fst kv \<noteq> a) docs"
    by (simp add: d2)
  ultimately show ?thesis using 1 2 r1 r2 aa by blast
qed

theorem addEntry_twice_overwrites_witness:
  "pdfFile st_again = pdfFile st_paper \<and> filepath_Abs env_ex2 = filepath_Abs env_ex
   \<and> disk st_again = disk (fst (addEntry env_ex index_ex st_paper))
   \<and> snd (addEntry env_ex index_ex st_paper) = None
   \<and> snd (addEntry env_ex2 index_ex st_again) = None
   \<and> disk st_paper index_ex = IndexDir [(''/cwd/paper.pdf'', doc_old)]
   \<and> disk (fst (addEntry env_ex index_ex st_paper)) index_ex
       = IndexDir [(''/cwd/paper.pdf'', doc_paper)]
   \<and> filter (\<lambda>kv. fst kv = ''/cwd/paper.pdf'')
        (documents (disk (fst (addEntry env_ex2 index_ex st_again)) index_ex))
       = [(''/cwd/paper.pdf'', doc_revised)]
   \<and> filter (\<lambda>kv. fst kv \<noteq> ''/cwd/paper.pdf'')
        (documents (disk (fst (addEntry env_ex2 index_ex st_again)) index_ex)) = []"
proof -
  have h1: "pdfFile st_again = pdfFile st_paper" by (simp add: st_again_def st_paper_def)
  have h2: "filepath_Abs env_ex2 = filepath_Abs env_ex" by (simp add: env_ex2_def)
  have h3: "disk st_again = disk (fst (addEntry env_ex index_ex st_paper))"
    by (simp add: st_again_def start_def)
  have k: "disk st_paper index_ex = IndexDir [(''/cwd/paper.pdf'', doc_old)]"
    by (simp add: st_paper_def start_def disk_ex_def)
  have a: "filepath_Abs env_ex (pdfFile st_paper) = Inr ''/cwd/paper.pdf''"
    by (simp add: env_ex_def st_paper_def)
  have d1: "snd (parseDocument env_ex st_paper) = Inr doc_paper"
    by (simp add: parseDocument_def parseBibtex_def env_ex_def st_paper_def start_def
        ctx_paper_def pageLoop.simps logger_Print_def doc_paper_def)
  note r1 = addEntry_ok [OF a _ d1 k]
  have k1: "disk (fst (addEntry env_ex index_ex st_paper)) index_ex
       = IndexDir [(''/cwd/paper.pdf'', doc_paper)]"
    using r1 by simp
  have a2: "filepath_Abs env_ex2 (pdfFile st_again) = Inr ''/cwd/paper.pdf''"
    by (simp add: env_ex2_def env_ex_def st_again_def)
  have d2: "snd (parseDocument env_ex2 st_again) = Inr doc_revised"
    by (simp add: parseDocument_def parseBibtex_def env_ex2_def env_ex_def st_again_def
        start_def ctx_revised_def pageLoop.simps logger_Print_def doc_revised_def)
  have k2: "disk st_again index_ex = IndexDir [(''/cwd/paper.pdf'', doc_paper)]"
    using h3 k1 by simp
  have h4: "snd (addEntry env_ex index_ex st_paper) = None" using r1 by simp
  have h5: "snd (addEntry env_ex2 index_ex st_again) = None"
    using addEntry_ok [OF a2 _ d2 k2] by simp
  from addEntry_twice_overwrites [OF h1 h2 h3 h4 h5] obtain a' doc2 docs docs' where
    w: "filepath_Abs env_ex (pdfFile st_paper) = Inr a'"
       "snd (parseDocument env_ex2 st_again) = Inr doc2"
       "disk st_paper index_ex = IndexDir docs"
       "disk (fst (addEntry env_ex2 index_ex st_again)) index_ex = IndexDir docs'"
       "filter (\<lambda>kv. fst kv = a') docs' = [(a', doc2)]"
       "filter (\<lambda>kv. fst kv \<noteq> a') docs' = filter (\<lambda>kv. fst kv \<noteq> a') docs"
    by blast
  have "a' = ''/cwd/paper.pdf''" "doc2 = doc_revised" "docs = [(''/cwd/paper.pdf'', doc_old)]"
    using w(1,2,3) a d2 k by simp_all
  then show ?thesis using h1 h2 h3 h4 h5 k k1 w(4,5,6) by simp
qed

subsection \<open>The program of src/main.go, mode by mode\<close>

lemma parseDocument_main_go_frame [simp]:
  "disk (fst (parseDocument_main_go e st)) = disk st"
  "calls (fst (parseDocument_main_go e st)) = calls st"
  "stdout (fst (parseDocument_main_go e st)) = stdout st"
  "logger (fst (parseDocument_main_go e st)) = logger st"
  by (simp_all add: parseDocument_main_go_def Let_def split: sum.splits prod.splits option.splits)

lemma addEntry_main_go_frame [simp]:
  "stdout (fst (addEntry_main_go e index st)) = stdout st"
  "logger (fst (addEntry_main_go e index st)) = logger st"
  "searches (calls (fst (addEntry_main_go e index st))) = searches (calls st)"
proof -
  obtain st1 r where p: "parseDocument_main_go e st = (st1, r)"
    by (cases "parseDocument_main_go e st")
  have f: "stdout st1 = stdout st" "logger st1 = logger st" "calls st1 = calls st"
    using parseDocument_main_go_frame [of e st] p by simp_all
  show "stdout (fst (addEntry_main_go e index st)) = stdout st"
    using p f by (simp add: addEntry_main_go_def split: sum.splits)
  show "logger (fst (addEntry_main_go e index st)) = logger st"
    using p f by (simp add: addEntry_main_go_def split: sum.splits)
  show "searches (calls (fst (addEntry_main_go e index st))) = searches (calls st)"
    using p f by (simp add: addEntry_main_go_def split: sum.splits)
qed

lemma main_main_go_open_fails:
  "snd (openIndex st) = Inl err \<Longrightarrow>
   main_main_go e st = (Flush (fst (openIndex st)), Some err)"
  by (cases "openIndex st") (simp add: main_main_go_def)

lemma main_main_go_ingest:
  assumes "snd (openIndex st) = Inr index" and "pdfFile st \<noteq> []"
  shows "main_main_go e st =
           (Flush (index_Close index (fst (addEntry_main_go e index (fst (openIndex st))))),
            snd (addEntry_main_go e index (fst (openIndex st))))"
proof -
  obtain st1 where o: "openIndex st = (st1, Inr index)"
    using assms(1) by (cases "openIndex st") simp
  have "pdfFile st1 = pdfFile st" using openIndex_frame(3) [of st] o by simp
  then show ?thesis using o assms(2)
    by (cases "addEntry_main_go e index st1")
       (auto simp add: main_main_go_def split: option.splits)
qed

lemma main_main_go_noquery:
  assumes "snd (openIndex st) = Inr index" and "pdfFile st = []" and "args st = []"
  shows "main_main_go e st =
     (Flush (index_Close index
        (logger_Print ''No query given, leaving.'' (fst (openIndex st)))), None)"
proof -
  obtain st1 where o: "openIndex st = (st1, Inr index)"
    using assms(1) by (cases "openIndex st") simp
  have "pdfFile st1 = pdfFile st" "args st1 = args st"
    using openIndex_frame [of st] o by simp_all
  then show ?thesis using o assms by (simp add: main_main_go_def)
qed

lemma main_main_go_query:
  assumes "snd (openIndex st) = Inr index" and "pdfFile st = []" and "args st \<noteq> []"
  shows "main_main_go e st =
     (let sr = index_Search e index
             \<lparr>Query = Join (args st) '' '', Size = 10, From = 0,
              Highlight = Some ansi_Name\<rparr>
             (fst (openIndex st))
      in case snd sr of
           Inl err \<Rightarrow> (Flush (index_Close index (fst sr)), Some err)
         | Inr result \<Rightarrow>
             (Flush (index_Close index
                (fmt_Println (SearchResult_String e result) (fst sr))), None))"
proof -
  obtain st1 where o: "openIndex st = (st1, Inr index)"
    using assms(1) by (cases "openIndex st") simp
  have "pdfFile st1 = pdfFile st" "args st1 = args st"
    using openIndex_frame [of st] o by simp_all
  then show ?thesis using o assms
    by (simp add: main_main_go_def Let_def NewSearchRequest_def split: prod.splits sum.splits)
qed

subsection \<open>The query string\<close>

lemma ReplaceAll_tilde:
  "ReplaceAll s ''~'' ''-'' = map (\<lambda>c. if c = CHR ''~'' then CHR ''-'' else c) s"
proof (induction s)
  case Nil
  show ?case by (subst ReplaceAll.simps) simp
next
  case (Cons c s)
  show ?case
  proof (cases "c = CHR ''~''")
    case True
    then show ?thesis using Cons.IH by (subst ReplaceAll.simps) simp
  next
    case False
    then show ?thesis using Cons.IH by (subst ReplaceAll.simps) simp
  qed
qed

lemma setWorkDir_frame [simp]:
  "stdout (fst (setWorkDir e st)) = stdout st"
  "logger (fst (setWorkDir e st)) = logger st"
  "disk (fst (setWorkDir e st)) = disk st"
  "calls (fst (setWorkDir e st)) = calls st"
  "pdfFile (fst (setWorkDir e st)) = pdfFile st"
  "bibtexFile (fst (setWorkDir e st)) = bibtexFile st"
  "args (fst (setWorkDir e st)) = args st"
  "verbose (fst (setWorkDir e st)) = verbose st"
  "verbose2 (fst (setWorkDir e st)) = verbose2 st"
  by (simp_all add: setWorkDir_def skipDefaults_def Let_def split: sum.splits option.splits)

lemma init_unfold:
  "init e fl st =
     (let st1 = st\<lparr>verbose := flag_v fl, verbose2 := flag_vv fl, pdfFile := flag_pdf fl,
                   bibtexFile := flag_bibtex fl, args := flag_Args fl\<rparr>
      in case flag_exit fl of
           Some code \<Rightarrow> (st1\<lparr>stderr := stderr st1 @ [UsageMsg]\<rparr>, Some (Exit code))
         | None \<Rightarrow>
             (fst (setWorkDir e
                (st1\<lparr>logger := (if flag_v fl \<or> flag_vv fl then Stderr else Discard)\<rparr>)),
              map_option Panic (snd (setWorkDir e
                (st1\<lparr>logger := (if flag_v fl \<or> flag_vv fl then Stderr else Discard)\<rparr>)))))"
  by (simp add: init_def Let_def split: option.splits prod.splits)

lemma init_flags:
  "pdfFile (fst (init e fl st)) = flag_pdf fl"
  "bibtexFile (fst (init e fl st)) = flag_bibtex fl"
  "args (fst (init e fl st)) = flag_Args fl"
  "verbose (fst (init e fl st)) = flag_v fl"
  "verbose2 (fst (init e fl st)) = flag_vv fl"
  "stdout (fst (init e fl st)) = stdout st"
  "disk (fst (init e fl st)) = disk st"
  "calls (fst (init e fl st)) = calls st"
  by (simp_all add: init_unfold Let_def split: option.splits)


lemma init_main_go_unfold:
  "init_main_go e fl st =
     (let w = setWorkDir e (st\<lparr>logger := Buffered, bufw := []\<rparr>);
          st3 = (fst w)\<lparr>pdfFile := flag_pdf fl, bibtexFile := flag_bibtex fl,
                        args := flag_Args fl\<rparr>
      in case snd w of
           Some err \<Rightarrow> (Flush (fst w), Some (Panic err))
         | None \<Rightarrow>
             (case flag_exit fl of
                Some code \<Rightarrow> (st3\<lparr>stderr := stderr st3 @ [UsageMsg]\<rparr>, Some (Exit code))
              | None \<Rightarrow>
                  if flag_v fl \<or> flag_vv fl
                  then (st3\<lparr>stderr := stderr st3 @ [UsageMsg]\<rparr>, Some (Exit 2))
                  else (Flush st3, None)))"
  by (simp add: init_main_go_def Let_def split: option.splits prod.splits)

lemma init_main_go_flags:
  "snd (init_main_go e fl st) = None \<Longrightarrow> pdfFile (fst (init_main_go e fl st)) = flag_pdf fl"
  "snd (init_main_go e fl st) = None \<Longrightarrow> args (fst (init_main_go e fl st)) = flag_Args fl"
  "logger (fst (init_main_go e fl st)) = Buffered"
  "stdout (fst (init_main_go e fl st)) = stdout st"
  "disk (fst (init_main_go e fl st)) = disk st"
  "calls (fst (init_main_go e fl st)) = calls st"
  by (simp_all add: init_main_go_unfold Let_def Flush_def split: option.splits)

subsection \<open>Modes\<close>

text \<open>
  C7. Once the index is open: with a non-empty \<^verbatim>\<open>-pdf\<close> value \<open>main\<close> is exactly
  \<open>addEntry\<close> followed by the close, no search is made and nothing is printed,
  whatever the positional arguments are; with no \<^verbatim>\<open>-pdf\<close> value and some query
  term exactly one search is made, nothing is inserted and the disk is not
  changed. No run both searches and inserts. The same holds for \<^verbatim>\<open>src/main.go\<close>.
  (\<open>init\<close> copies the value of \<^verbatim>\<open>-pdf\<close> and the positional arguments into
  \<open>pdfFile\<close> and \<open>args\<close>; the flag counts as present when its value is not empty.)
\<close>

theorem one_mode_runs:
  assumes "snd (openIndex st) = Inr index"
  shows "(pdfFile st \<noteq> [] \<longrightarrow>
            main e st = (index_Close index (fst (addEntry e index (fst (openIndex st)))),
                         snd (addEntry e index (fst (openIndex st))))
          \<and> searches (calls (fst (main e st))) = searches (calls st)
          \<and> stdout (fst (main e st)) = stdout st)
       \<and> (pdfFile st = [] \<and> args st \<noteq> [] \<longrightarrow>
            length (searches (calls (fst (main e st)))) = length (searches (calls st)) + 1
          \<and> insertions (calls (fst (main e st))) = insertions (calls st)
          \<and> disk (fst (main e st)) = disk (fst (openIndex st)))
       \<and> (pdfFile st \<noteq> [] \<longrightarrow>
            main_main_go e st =
              (Flush (index_Close index (fst (addEntry_main_go e index (fst (openIndex st))))),
               snd (addEntry_main_go e index (fst (openIndex st))))
          \<and> searches (calls (fst (main_main_go e st))) = searches (calls st)
          \<and> stdout (fst (main_main_go e st)) = stdout st)
       \<and> (pdfFile st = [] \<and> args st \<noteq> [] \<longrightarrow>
            length (searches (calls (fst (main_main_go e st)))) = length (searches (calls st)) + 1
          \<and> insertions (calls (fst (main_main_go e st))) = insertions (calls st)
          \<and> disk (fst (main_main_go e st)) = disk (fst (openIndex st)))
       \<and> (searches (calls (fst (main e st))) = searches (calls st)
            \<or> insertions (calls (fst (main e st))) = insertions (calls st))
       \<and> (searches (calls (fst (main_main_go e st))) = searches (calls st)
            \<or> insertions (calls (fst (main_main_go e st))) = insertions (calls st))
       \<and> pdfFile (fst (init e fl st0)) = flag_pdf fl
       \<and> args (fst (init e fl st0)) = flag_Args fl"
proof (intro conjI impI)
  assume p: "pdfFile st \<noteq> []"
  show "main e st = (index_Close index (fst (addEntry e index (fst (openIndex st)))),
                         snd (addEntry e index (fst (openIndex st))))"
    using main_ingest [OF assms p] .
  then show "searches (calls (fst (main e st))) = searches (calls st)"
    by simp
  show "stdout (fst (main e st)) = stdout st"
    using main_ingest [OF assms p, of e] by simp
next
  assume p: "pdfFile st \<noteq> []"
  show "main_main_go e st =
              (Flush (index_Close index (fst (addEntry_main_go e index (fst (openIndex st))))),
               snd (addEntry_main_go e index (fst (openIndex st))))"
    using main_main_go_ingest [OF assms p] .
  then show "searches (calls (fst (main_main_go e st))) = searches (calls st)"
    by simp
  show "stdout (fst (main_main_go e st)) = stdout st"
    using main_main_go_ingest [OF assms p, of e] by simp
next
  assume q: "pdfFile st = [] \<and> args st \<noteq> []"
  let ?req = "\<lparr>Query = ReplaceAll (Join (args st) '' '') ''~'' ''-'', Size = 10, From = 0,
              Highlight = (if verbose2 st then Some ansi_Name else None)\<rparr>"
  obtain st2 r where s: "index_Search e index ?req (fst (openIndex st)) = (st2, r)"
    by (cases "index_Search e index ?req (fst (openIndex st))")
  have c: "calls st2 = calls (fst (openIndex st)) @ [Call_Search index ?req]"
          "disk st2 = disk (fst (openIndex st))"
    using index_Search_frame(5,6) [of e index ?req "fst (openIndex st)"] s by simp_all
  have m: "main e st =
     (case r of
        Inl err \<Rightarrow> (index_Close index st2, Some err)
      | Inr result \<Rightarrow>
          (index_Close index (fmt_Println (SearchResult_String e result) st2), None))"
    using main_query [of st index e] assms q s by (simp add: Let_def split: sum.splits)
  show "length (searches (calls (fst (main e st)))) = length (searches (calls st)) + 1"
    using m c by (cases r) simp_all
  show "insertions (calls (fst (main e st))) = insertions (calls st)"
    using m c by (cases r) simp_all
  show "disk (fst (main e st)) = disk (fst (openIndex st))"
    using m c by (cases r) simp_all
next
  assume q: "pdfFile st = [] \<and> args st \<noteq> []"
  let ?req = "\<lparr>Query = Join (args st) '' '', Size = 10, From = 0,
              Highlight = Some ansi_Name\<rparr>"
  obtain st2 r where s: "index_Search e index ?req (fst (openIndex st)) = (st2, r)"
    by (cases "index_Search e index ?req (fst (openIndex st))")
  have c: "calls st2 = calls (fst (openIndex st)) @ [Call_Search index ?req]"
          "disk st2 = disk (fst (openIndex st))"
    using index_Search_frame(5,6) [of e index ?req "fst (openIndex st)"] s by simp_all
  have m: "main_main_go e st =
     (case r of
        Inl err \<Rightarrow> (Flush (index_Close index st2), Some err)
      | Inr result \<Rightarrow>
          (Flush (index_Close index (fmt_Println (SearchResult_String e result) st2)), None))"
    using main_main_go_query [of st index e] assms q s by (simp add: Let_def split: sum.splits)
  show "length (searches (calls (fst (main_main_go e st)))) = length (searches (calls st)) + 1"
    using m c by (cases r) simp_all
  show "insertions (calls (fst (main_main_go e st))) = insertions (calls st)"
    using m c by (cases r) simp_all
  show "disk (fst (main_main_go e st)) = disk (fst (openIndex st))"
    using m c by (cases r) simp_all
next
  show "searches (calls (fst (main e st))) = searches (calls st)
            \<or> insertions (calls (fst (main e st))) = insertions (calls st)"
  proof (cases "pdfFile st \<noteq> []")
    case True
    then show ?thesis using main_ingest [OF assms True, of e] by simp
  next
    case False
    then show ?thesis using assms
      by (cases "args st = []")
         (simp_all add: main_noquery main_query Let_def split: sum.splits)
  qed
next
  show "searches (calls (fst (main_main_go e st))) = searches (calls st)
            \<or> insertions (calls (fst (main_main_go e st))) = insertions (calls st)"
  proof (cases "pdfFile st \<noteq> []")
    case True
    then show ?thesis using main_main_go_ingest [OF assms True, of e] by simp
  next
    case False
    then show ?thesis using assms
      by (cases "args st = []")
         (simp_all add: main_main_go_noquery main_main_go_query Let_def split: sum.splits)
  qed
next
  show "pdfFile (fst (init e fl st0)) = flag_pdf fl" by (simp add: init_flags)
  show "args (fst (init e fl st0)) = flag_Args fl" by (simp add: init_flags)
qed

theorem one_mode_runs_witness:
  "snd (openIndex st_both) = Inr index_ex \<and> pdfFile st_both \<noteq> [] \<and> args st_both \<noteq> []
   \<and> searches (calls (fst (main env_ex st_both))) = []
   \<and> insertions (calls (fst (main env_ex st_both))) = [(''/cwd/paper.pdf'', doc_paper)]
   \<and> snd (openIndex st_query) = Inr index_ex \<and> pdfFile st_query = [] \<and> args st_query \<noteq> []
   \<and> length (searches (calls (fst (main env_ex st_query)))) = 1
   \<and> insertions (calls (fst (main env_ex st_query))) = []"
proof -
  have h: "snd (openIndex st_both) = Inr index_ex"
    by (simp add: openIndex_IndexDir [of _ "[(''/cwd/paper.pdf'', doc_old)]"]
        st_both_def start_def disk_ex_def)
  have p: "pdfFile st_both \<noteq> []" "args st_both \<noteq> []" "calls st_both = []"
    by (simp_all add: st_both_def start_def)
  have h': "snd (openIndex st_query) = Inr index_ex"
    by (simp add: openIndex_IndexDir [of _ "[(''/cwd/paper.pdf'', doc_old)]"]
        st_query_def start_def disk_ex_def)
  have p': "pdfFile st_query = []" "args st_query \<noteq> []" "calls st_query = []"
    by (simp_all add: st_query_def start_def)
  have i: "insertions (calls (fst (main env_ex st_both))) = [(''/cwd/paper.pdf'', doc_paper)]"
    by (simp add: main_def openIndex_def bleve_Open_def addEntry_def parseDocument_def
        parseBibtex_def index_Index_def index_Close_def pageLoop.simps Let_def
        st_both_def start_def disk_ex_def env_ex_def index_ex_def ctx_paper_def doc_paper_def)
  from one_mode_runs [OF h, of env_ex] one_mode_runs [OF h', of env_ex]
  show ?thesis using h p h' p' i by simp
qed

text \<open>
  C2, as stated, fails for the program of part_000: the query terms
  \<^verbatim>\<open>consensus~2 raft\<close> are submitted as \<^verbatim>\<open>consensus-2 raft\<close>.
\<close>

theorem query_string_counterexample:
  "flag_Args flags_query = [''consensus~2'', ''raft'']
   \<and> Join (flag_Args flags_query) '' '' = ''consensus~2 raft''
   \<and> map Query (searches (calls (fst (run env_ex flags_query (start disk_none)))))
       = [''consensus-2 raft'']"
  by (simp add: run_def init_def setWorkDir_def skipDefaults_def main_def openIndex_def
      bleve_Open_def bleve_New_def index_Close_def index_Search_def panicked_def
      NewSearchRequest_def fmt_Println_def ReplaceAll_tilde
      env_ex_def flags_query_def flags_none_def start_def disk_none_def index_ex_def Let_def)

text \<open>
  C2, amended. For a non-empty list of query terms (no \<^verbatim>\<open>-pdf\<close>, the index open)
  the query string submitted by the program of part_000 is the terms joined by
  single spaces with every \<^verbatim>\<open>~\<close> replaced by \<^verbatim>\<open>-\<close>; the program of \<^verbatim>\<open>src/main.go\<close>
  submits the joined terms unchanged.
\<close>

theorem query_string_submitted:
  assumes "snd (openIndex st) = Inr index" and "pdfFile st = []" and "args st \<noteq> []"
  shows "map Query (searches (calls (fst (main e st)))) =
           map Query (searches (calls st)) @
           [map (\<lambda>c. if c = CHR ''~'' then CHR ''-'' else c) (Join (args st) '' '')]
       \<and> map Query (searches (calls (fst (main_main_go e st)))) =
           map Query (searches (calls st)) @ [Join (args st) '' '']"
proof -
  let ?req = "\<lparr>Query = ReplaceAll (Join (args st) '' '') ''~'' ''-'', Size = 10, From = 0,
              Highlight = (if verbose2 st then Some ansi_Name else None)\<rparr>"
  let ?req' = "\<lparr>Query = Join (args st) '' '', Size = 10, From = 0,
              Highlight = Some ansi_Name\<rparr>"
  obtain st2 r where s: "index_Search e index ?req (fst (openIndex st)) = (st2, r)"
    by (cases "index_Search e index ?req (fst (openIndex st))")
  have c: "calls st2 = calls (fst (openIndex st)) @ [Call_Search index ?req]"
    using index_Search_frame(6) [of e index ?req "fst (openIndex st)"] s by simp
  have 1: "map Query (searches (calls (fst (main e st)))) =
           map Query (searches (calls st)) @
           [map (\<lambda>c. if c = CHR ''~'' then CHR ''-'' else c) (Join (args st) '' '')]"
    using main_query [OF assms, of e] s c
    by (cases r) (simp_all add: ReplaceAll_tilde Let_def)
  obtain st2' r' where s': "index_Search e index ?req' (fst (openIndex st)) = (st2', r')"
    by (cases "index_Search e index ?req' (fst (openIndex st))")
  have c': "calls st2' = calls (fst (openIndex st)) @ [Call_Search index ?req']"
    using index_Search_frame(6) [of e index ?req' "fst (openIndex st)"] s' by simp
  have 2: "map Query (searches (calls (fst (main_main_go e st)))) =
           map Query (searches (calls st)) @ [Join (args st) '' '']"
    using main_main_go_query [OF assms, of e] s' c'
    by (cases r') (simp_all add: Let_def)
  from 1 2 show ?thesis by simp
qed

theorem query_string_submitted_witness:
  "snd (openIndex st_query) = Inr index_ex \<and> pdfFile st_query = [] \<and> args st_query \<noteq> []
   \<and> map Query (searches (calls (fst (main env_ex st_query)))) = [''consensus-2 raft'']
   \<and> map Query (searches (calls (fst (main_main_go env_ex st_query)))) = [''consensus~2 raft'']"
proof -
  have h: "snd (openIndex st_query) = Inr index_ex"
    by (simp add: openIndex_IndexDir [of _ "[(''/cwd/paper.pdf'', doc_old)]"]
        st_query_def start_def disk_ex_def)
  have p: "pdfFile st_query = []" and a: "args st_query \<noteq> []"
    by (simp_all add: st_query_def start_def)
  have c: "calls st_query = []" "args st_query = [''consensus~2'', ''raft'']"
    by (simp_all add: st_query_def start_def)
  show ?thesis
    using h p a query_string_submitted [OF h p a, of env_ex]
    by (simp add: c)
qed

lemma index_Search_no_highlight:
  "Highlight req = None \<Longrightarrow> snd (index_Search e index req st) = Inr result \<Longrightarrow>
   \<forall>h\<in>set result. Fragments h = []"
  by (auto simp add: index_Search_def Let_def split: disk_entry.splits sum.splits)

text \<open>
  C10. In a query run of the program of part_000 the search request carries a
  highlight (the style \<^verbatim>\<open>ansi\<close>) if and only if \<open>verbose2\<close> is set, which \<open>init\<close>
  sets from \<^verbatim>\<open>-vv\<close>; without it the hits of the printed result have no
  fragments.
\<close>

theorem highlight_iff_vv:
  assumes "snd (openIndex st) = Inr index" and "pdfFile st = []" and "args st \<noteq> []"
  shows "map Highlight (searches (calls (fst (main e st)))) =
           map Highlight (searches (calls st)) @ [if verbose2 st then Some ansi_Name else None]
       \<and> (Highlight (last (searches (calls (fst (main e st)))))  \<noteq> None) = verbose2 st
       \<and> (\<not> verbose2 st \<longrightarrow>
            (\<forall>result.
               snd (index_Search e index (last (searches (calls (fst (main e st)))))
                      (fst (openIndex st))) = Inr result \<longrightarrow>
               (\<forall>h\<in>set result. Fragments h = [])
               \<and> stdout (fst (main e st)) = stdout st @ [SearchResult_String e result]))
       \<and> verbose2 (fst (init e fl st0)) = flag_vv fl"
proof -
  let ?req = "\<lparr>Query = ReplaceAll (Join (args st) '' '') ''~'' ''-'', Size = 10, From = 0,
              Highlight = (if verbose2 st then Some ansi_Name else None)\<rparr>"
  obtain st2 r where s: "index_Search e index ?req (fst (openIndex st)) = (st2, r)"
    by (cases "index_Search e index ?req (fst (openIndex st))")
  have c: "calls st2 = calls (fst (openIndex st)) @ [Call_Search index ?req]"
          "stdout st2 = stdout st"
    using index_Search_frame(1,6) [of e index ?req "fst (openIndex st)"] s by simp_all
  have m: "main e st =
     (case r of
        Inl err \<Rightarrow> (index_Close index st2, Some err)
      | Inr result \<Rightarrow>
          (index_Close index (fmt_Println (SearchResult_String e result) st2), None))"
    using main_query [OF assms, of e] s by (simp add: Let_def split: sum.splits)
  have tr: "searches (calls (fst (main e st))) = searches (calls st) @ [?req]"
    using m c by (cases r) simp_all
  have 1: "map Highlight (searches (calls (fst (main e st)))) =
           map Highlight (searches (calls st)) @ [if verbose2 st then Some ansi_Name else None]"
    using tr by simp
  have l: "last (searches (calls (fst (main e st)))) = ?req"
    using tr by simp
  have 2: "(Highlight (last (searches (calls (fst (main e st))))) \<noteq> None) = verbose2 st"
    using l by simp
  have 3: "\<not> verbose2 st \<longrightarrow>
            (\<forall>result.
               snd (index_Search e index (last (searches (calls (fst (main e st)))))
                      (fst (openIndex st))) = Inr result \<longrightarrow>
               (\<forall>h\<in>set result. Fragments h = [])
               \<and> stdout (fst (main e st)) = stdout st @ [SearchResult_String e result])"
  proof (intro impI allI)
    fix result
    assume nv: "\<not> verbose2 st"
      and "snd (index_Search e index (last (searches (calls (fst (main e st)))))
                      (fst (openIndex st))) = Inr result"
    then have r: "r = Inr result" and sr: "snd (index_Search e index ?req (fst (openIndex st))) = Inr result"
      using l s by simp_all
    have "Highlight ?req = None" using nv by simp
    from index_Search_no_highlight [OF this sr]
    show "(\<forall>h\<in>set result. Fragments h = [])
               \<and> stdout (fst (main e st)) = stdout st @ [SearchResult_String e result]"
      using m r c by simp
  qed
  have 4: "verbose2 (fst (init e fl st0)) = flag_vv fl" by (simp add: init_flags)
  from 1 2 3 4 show ?thesis by blast
qed

theorem highlight_iff_vv_witness:
  "snd (openIndex st_query_vv) = Inr index_ex \<and> pdfFile st_query_vv = []
   \<and> args st_query_vv \<noteq> [] \<and> verbose2 st_query_vv
   \<and> map Highlight (searches (calls (fst (main env_ex st_query_vv)))) = [Some ''ansi'']
   \<and> snd (openIndex st_query_plain) = Inr index_ex \<and> pdfFile st_query_plain = []
   \<and> args st_query_plain \<noteq> [] \<and> \<not> verbose2 st_query_plain
   \<and> map Highlight (searches (calls (fst (main env_ex st_query_plain)))) = [None]
   \<and> stdout (fst (main env_ex st_query_plain)) = [''/cwd/paper.pdf'']"
proof -
  have h: "snd (openIndex st_query_vv) = Inr index_ex"
    by (simp add: openIndex_IndexDir [of _ "[(''/cwd/paper.pdf'', doc_old)]"]
        st_query_vv_def start_def disk_ex_def)
  have p: "pdfFile st_query_vv = []" and a: "args st_query_vv \<noteq> []"
    and v: "verbose2 st_query_vv" and c: "calls st_query_vv = []"
    by (simp_all add: st_query_vv_def start_def)
  have h': "snd (openIndex st_query_plain) = Inr index_ex"
    by (simp add: openIndex_IndexDir [of _ "[(''/cwd/paper.pdf'', doc_old)]"]
        st_query_plain_def start_def disk_ex_def)
  have p': "pdfFile st_query_plain = []" and a': "args st_query_plain \<noteq> []"
    and v': "\<not> verbose2 st_query_plain" and c': "calls st_query_plain = []"
    by (simp_all add: st_query_plain_def start_def)
  have o: "stdout (fst (main env_ex st_query_plain)) = [''/cwd/paper.pdf'']"
    by (simp add: main_def openIndex_def bleve_Open_def index_Search_def index_Close_def
        fmt_Println_def NewSearchRequest_def ReplaceAll_tilde Let_def
        st_query_plain_def start_def disk_ex_def env_ex_def index_ex_def doc_old_def)
  from highlight_iff_vv [OF h p a, of env_ex] highlight_iff_vv [OF h' p' a', of env_ex]
  show ?thesis using h p a v c h' p' a' v' c' o by (simp add: ansi_Name_def)
qed

subsection \<open>The two output streams\<close>

lemma logger_Print_stderr:
  "stderr (logger_Print m st) = (if logger st = Stderr then stderr st @ [LogMsg m] else stderr st)"
  by (simp add: logger_Print_def split: writer.splits)

lemma logger_Print_quiet [simp]:
  "logger st \<noteq> Stderr \<Longrightarrow> stderr (logger_Print m st) = stderr st"
  by (simp add: logger_Print_stderr)

lemma openIndex_quiet [simp]:
  "logger st \<noteq> Stderr \<Longrightarrow> stderr (fst (openIndex st)) = stderr st"
  by (cases "disk st (indexPath st)") (simp_all add: openIndex_cases)

lemma parseBibtex_quiet [simp]:
  "logger st \<noteq> Stderr \<Longrightarrow> stderr (fst (parseBibtex e t st)) = stderr st"
  by (simp add: parseBibtex_def Let_def split: sum.splits)

lemma parseDocument_quiet [simp]:
  "logger st \<noteq> Stderr \<Longrightarrow> stderr (fst (parseDocument e st)) = stderr st"
  by (simp add: parseDocument_def Let_def split: sum.splits)

lemma parseDocument_main_go_quiet [simp]:
  "logger st \<noteq> Stderr \<Longrightarrow> stderr (fst (parseDocument_main_go e st)) = stderr st"
  by (simp add: parseDocument_main_go_def Let_def split: sum.splits prod.splits option.splits)

lemma addEntry_quiet [simp]:
  assumes "logger st \<noteq> Stderr"
  shows "stderr (fst (addEntry e index st)) = stderr st"
proof -
  obtain st1 r where p: "parseDocument e st = (st1, r)" by (cases "parseDocument e st")
  have "stderr st1 = stderr st" "logger st1 = logger st"
    using parseDocument_quiet [OF assms, of e] parseDocument_frame(4) [of e st] p by simp_all
  then show ?thesis using p assms by (simp add: addEntry_def split: sum.splits)
qed

lemma addEntry_main_go_quiet [simp]:
  assumes "logger st \<noteq> Stderr"
  shows "stderr (fst (addEntry_main_go e index st)) = stderr st"
proof -
  obtain st1 r where p: "parseDocument_main_go e st = (st1, r)"
    by (cases "parseDocument_main_go e st")
  have "stderr st1 = stderr st" "logger st1 = logger st"
    using parseDocument_main_go_quiet [OF assms, of e] parseDocument_main_go_frame(4) [of e st] p
    by simp_all
  then show ?thesis using p assms by (simp add: addEntry_main_go_def split: sum.splits)
qed





lemma main_stdout_ingest:
  "pdfFile st \<noteq> [] \<Longrightarrow> stdout (fst (main e st)) = stdout st"
  by (cases "snd (openIndex st)") (simp_all add: main_open_fails main_ingest)




lemma main_main_go_stdout_ingest:
  "pdfFile st \<noteq> [] \<Longrightarrow> stdout (fst (main_main_go e st)) = stdout st"
  by (cases "snd (openIndex st)") (simp_all add: main_main_go_open_fails main_main_go_ingest)




lemma panicked_frame [simp]:
  "stdout (fst (panicked r)) = stdout (fst r)"
  "snd (panicked r) = snd r"
  "logs (stderr (fst (panicked r))) = logs (stderr (fst r))"
  by (cases r; cases "snd r"; simp add: panicked_def split: ending.splits)+

lemma panicked_stderr:
  "\<exists>ys. stderr (fst (panicked r)) = stderr (fst r) @ ys"
  by (cases r; cases "snd r"; simp add: panicked_def split: ending.splits)

lemma run_unfold:
  "run e fl st =
     (if snd (init e fl st) = None
      then panicked (fst (main e (fst (init e fl st))),
                     map_option Panic (snd (main e (fst (init e fl st)))))
      else panicked (init e fl st))"
  by (cases "init e fl st"; cases "snd (init e fl st)";
      simp add: run_def split: prod.splits)

lemma run_main_go_unfold:
  "run_main_go e fl st =
     (if snd (init_main_go e fl st) = None
      then panicked (fst (main_main_go e (fst (init_main_go e fl st))),
                     map_option Panic (snd (main_main_go e (fst (init_main_go e fl st)))))
      else panicked (init_main_go e fl st))"
  by (cases "init_main_go e fl st"; cases "snd (init_main_go e fl st)";
      simp add: run_main_go_def split: prod.splits)




lemma run_stdout_ingest:
  "flag_pdf fl \<noteq> [] \<Longrightarrow> stdout (fst (run e fl st)) = stdout st"
  using main_stdout_ingest [of "fst (init e fl st)" e]
  by (simp add: run_unfold init_flags)




lemma run_main_go_stdout_ingest:
  "flag_pdf fl \<noteq> [] \<Longrightarrow> stdout (fst (run_main_go e fl st)) = stdout st"
  using main_main_go_stdout_ingest [of "fst (init_main_go e fl st)" e]
  by (simp add: run_main_go_unfold init_main_go_flags)






lemma main_noquery_eq:
  assumes "pdfFile st = []" and "args st = []"
  shows "main e st =
     (case snd (openIndex st) of
        Inl err \<Rightarrow> (fst (openIndex st), Some err)
      | Inr index \<Rightarrow>
          (index_Close index
             (logger_Print ''No query given, leaving.'' (fst (openIndex st))), None))"
  using assms
  by (cases "snd (openIndex st)") (simp_all add: main_open_fails main_noquery)

lemma main_main_go_noquery_eq:
  assumes "pdfFile st = []" and "args st = []"
  shows "main_main_go e st =
     (case snd (openIndex st) of
        Inl err \<Rightarrow> (Flush (fst (openIndex st)), Some err)
      | Inr index \<Rightarrow>
          (Flush (index_Close index
             (logger_Print ''No query given, leaving.'' (fst (openIndex st)))), None))"
  using assms
  by (cases "snd (openIndex st)") (simp_all add: main_main_go_open_fails main_main_go_noquery)

text \<open>
  C1, as stated, fails in both programs: a run with no \<^verbatim>\<open>-pdf\<close> and no query
  term, on a disk with no index, opens the index, creates it and closes it.
\<close>

theorem no_query_opens_store_counterexample:
  "flag_pdf flags_none = [] \<and> flag_Args flags_none = []
   \<and> disk (start disk_none) index_ex = NoPath
   \<and> calls (fst (run env_ex flags_none (start disk_none))) =
        [Call_Open index_ex, Call_New index_ex, Call_Close index_ex]
   \<and> disk (fst (run env_ex flags_none (start disk_none))) index_ex = IndexDir []
   \<and> calls (fst (run_main_go env_ex flags_none (start disk_none))) =
        [Call_Open index_ex, Call_New index_ex, Call_Close index_ex]
   \<and> disk (fst (run_main_go env_ex flags_none (start disk_none))) index_ex = IndexDir []"
  by (simp add: run_def init_def run_main_go_def init_main_go_def setWorkDir_def
      skipDefaults_def main_def main_main_go_def openIndex_def
      bleve_Open_def bleve_New_def index_Close_def panicked_def logger_Print_def Flush_def
      env_ex_def flags_none_def start_def disk_none_def index_ex_def Let_def)

text \<open>
  C1, amended. With no \<^verbatim>\<open>-pdf\<close> value and no query term, \<open>main\<close> makes no
  search and no insertion and prints nothing, but it does go to the index: its
  first call is \<^verbatim>\<open>bleve.Open\<close>, and what it leaves on disk is what \<open>openIndex\<close>
  leaves. Where there is no index it creates an empty one and closes it; where
  there is one it opens and closes it; where \<open>openIndex\<close> fails it panics with
  that error. \<open>main\<close> of \<^verbatim>\<open>src/main.go\<close> makes the same calls.
\<close>

theorem no_query_opens_and_closes_store:
  assumes "pdfFile st = []" and "args st = []"
  shows "(\<exists>rest. calls (fst (main e st)) = calls st @ Call_Open (indexPath st) # rest
              \<and> searches rest = [] \<and> insertions rest = [])
       \<and> stdout (fst (main e st)) = stdout st
       \<and> disk (fst (main e st)) = disk (fst (openIndex st))
       \<and> snd (main e st) = (case snd (openIndex st) of Inl err \<Rightarrow> Some err | Inr index \<Rightarrow> None)
       \<and> (disk st (indexPath st) = NoPath \<longrightarrow>
            calls (fst (main e st)) =
              calls st @ [Call_Open (indexPath st), Call_New (indexPath st),
                          Call_Close (indexPath st)]
            \<and> disk (fst (main e st)) = (disk st)(indexPath st := IndexDir [])
            \<and> snd (main e st) = None)
       \<and> ((\<exists>docs. disk st (indexPath st) = IndexDir docs) \<longrightarrow>
            calls (fst (main e st)) =
              calls st @ [Call_Open (indexPath st), Call_Close (indexPath st)]
            \<and> disk (fst (main e st)) = disk st
            \<and> snd (main e st) = None)
       \<and> calls (fst (main_main_go e st)) = calls (fst (main e st))
       \<and> disk (fst (main_main_go e st)) = disk (fst (main e st))
       \<and> snd (main_main_go e st) = snd (main e st)
       \<and> stdout (fst (main_main_go e st)) = stdout st"
proof -
  note m = main_noquery_eq [OF assms, of e]
  note m' = main_main_go_noquery_eq [OF assms, of e]
  from openIndex_calls [of st] obtain rest where
    r: "calls (fst (openIndex st)) = calls st @ Call_Open (indexPath st) # rest"
       "searches rest = []" "insertions rest = []"
    by blast
  have 1: "\<exists>rest. calls (fst (main e st)) = calls st @ Call_Open (indexPath st) # rest
              \<and> searches rest = [] \<and> insertions rest = []"
  proof (cases "snd (openIndex st)")
    case (Inl err)
    then show ?thesis using m r by simp
  next
    case (Inr index)
    then have "calls (fst (main e st))
        = calls st @ Call_Open (indexPath st) # (rest @ [Call_Close index])"
      using m r by simp
    moreover have "searches (rest @ [Call_Close index]) = []"
      "insertions (rest @ [Call_Close index]) = []"
      using r by simp_all
    ultimately show ?thesis by blast
  qed
  have 2: "stdout (fst (main e st)) = stdout st"
    "disk (fst (main e st)) = disk (fst (openIndex st))"
    "snd (main e st) = (case snd (openIndex st) of Inl err \<Rightarrow> Some err | Inr index \<Rightarrow> None)"
    using m by (cases "snd (openIndex st)"; simp)+
  have 3: "disk st (indexPath st) = NoPath \<longrightarrow>
            calls (fst (main e st)) =
              calls st @ [Call_Open (indexPath st), Call_New (indexPath st),
                          Call_Close (indexPath st)]
            \<and> disk (fst (main e st)) = (disk st)(indexPath st := IndexDir [])
            \<and> snd (main e st) = None"
    using m by (simp add: openIndex_NoPath)
  have 4: "(\<exists>docs. disk st (indexPath st) = IndexDir docs) \<longrightarrow>
            calls (fst (main e st)) =
              calls st @ [Call_Open (indexPath st), Call_Close (indexPath st)]
            \<and> disk (fst (main e st)) = disk st
            \<and> snd (main e st) = None"
    using m by (auto simp add: openIndex_IndexDir)
  have 5: "calls (fst (main_main_go e st)) = calls (fst (main e st))"
    "disk (fst (main_main_go e st)) = disk (fst (main e st))"
    "snd (main_main_go e st) = snd (main e st)"
    "stdout (fst (main_main_go e st)) = stdout st"
    using m m' by (cases "snd (openIndex st)"; simp)+
  from 1 2 3 4 5 show ?thesis by blast
qed

theorem no_query_opens_and_closes_store_witness:
  "pdfFile st_absent = [] \<and> args st_absent = []
   \<and> disk st_absent (indexPath st_absent) = NoPath
   \<and> calls (fst (main env_ex st_absent)) =
        [Call_Open index_ex, Call_New index_ex, Call_Close index_ex]
   \<and> disk (fst (main env_ex st_absent)) index_ex = IndexDir []
   \<and> snd (main env_ex st_absent) = None
   \<and> stdout (fst (main env_ex st_absent)) = []
   \<and> calls (fst (main_main_go env_ex st_absent)) =
        [Call_Open index_ex, Call_New index_ex, Call_Close index_ex]"
proof -
  have h: "pdfFile st_absent = []" "args st_absent = []"
    by (simp_all add: st_absent_def start_def)
  have d: "disk st_absent (indexPath st_absent) = NoPath" "indexPath st_absent = index_ex"
    "calls st_absent = []" "stdout st_absent = []"
    by (simp_all add: st_absent_def start_def disk_none_def)
  note t = no_query_opens_and_closes_store [OF h, of env_ex]
  from t d(1) have w1:
    "calls (fst (main env_ex st_absent)) =
       calls st_absent @ [Call_Open (indexPath st_absent), Call_New (indexPath st_absent),
                          Call_Close (indexPath st_absent)]"
    "disk (fst (main env_ex st_absent)) = (disk st_absent)(indexPath st_absent := IndexDir [])"
    "snd (main env_ex st_absent) = None"
    by blast+
  from t have w2: "stdout (fst (main env_ex st_absent)) = stdout st_absent"
    "calls (fst (main_main_go env_ex st_absent)) = calls (fst (main env_ex st_absent))"
    by blast+
  show ?thesis using h d w1 w2 by simp
qed




end
